theory Spec2Isabelle
  imports
    Complex_Main
    "HOL-Library.Char_ord"
    "HOL-Library.List_Lexorder"
    "HOL-Library.Product_Lexorder"
begin

section \<open>Conventions of the embedding\<close>

text \<open>
  The development embeds \<^verbatim>\<open>dashboard/data_engineering.py\<close>.

  \<^item> A pandas DataFrame is the list of its rows, a row is a record; the empty DataFrame
    (\<^verbatim>\<open>df.empty\<close>) is the empty list.
  \<^item> A Python \<^verbatim>\<open>float\<close> is an exact rational; \<^verbatim>\<open>NaN\<close> is \<open>None\<close>.
    Rounding is round-half-to-even on the exact value.
  \<^item> A Python \<^verbatim>\<open>str\<close> is a \<open>string\<close> of ASCII characters, ordered as Python orders
    strings (lexicographically by code point).
  \<^item> A key of a raw API object is an optional field: \<open>None\<close> is a key that the payload
    does not carry. Texts are texts and amounts are numbers.
  \<^item> \<^verbatim>\<open>datetime.now()\<close> is an explicit argument \<open>today\<close>.
  \<^item> An exception that leaves a function is a value \<open>Inl e\<close> of the result.
\<close>

datatype py_error = ValueError | OverflowError

section \<open>Characters and strings\<close>

definition code :: "char \<Rightarrow> nat" where
  "code c = of_char c"

definition is_space :: "char \<Rightarrow> bool" where
  "is_space c = ((9 \<le> code c \<and> code c \<le> 13) \<or> (28 \<le> code c \<and> code c \<le> 32))"

definition is_upper :: "char \<Rightarrow> bool" where
  "is_upper c = (65 \<le> code c \<and> code c \<le> 90)"

definition is_lower :: "char \<Rightarrow> bool" where
  "is_lower c = (97 \<le> code c \<and> code c \<le> 122)"

definition is_digit :: "char \<Rightarrow> bool" where
  "is_digit c = (48 \<le> code c \<and> code c \<le> 57)"

definition to_upper :: "char \<Rightarrow> char" where
  "to_upper c = (if is_lower c then char_of (code c - 32) else c)"

definition to_lower :: "char \<Rightarrow> char" where
  "to_lower c = (if is_upper c then char_of (code c + 32) else c)"

text \<open>\<^verbatim>\<open>s.upper()\<close>\<close>

definition upper :: "string \<Rightarrow> string" where
  "upper s = map to_upper s"

text \<open>\<^verbatim>\<open>s.strip()\<close>\<close>

definition strip :: "string \<Rightarrow> string" where
  "strip s = rev (dropWhile is_space (rev (dropWhile is_space s)))"

text \<open>
  \<^verbatim>\<open>s.title()\<close>: a cased character is upper-cased when the character before it is not
  cased, and lower-cased otherwise. The flag is CPython's \<^verbatim>\<open>previous_is_cased\<close>.
\<close>

fun title_from :: "bool \<Rightarrow> string \<Rightarrow> string" where
  "title_from previous_is_cased [] = []"
| "title_from previous_is_cased (c # cs) =
     (if is_lower c then
        (if previous_is_cased then c else to_upper c) # title_from True cs
      else if is_upper c then
        (if previous_is_cased then to_lower c else c) # title_from True cs
      else c # title_from False cs)"

definition title :: "string \<Rightarrow> string" where
  "title s = title_from False s"

text \<open>\<^verbatim>\<open>s.split(",")\<close>, for a one-character separator.\<close>

fun split_on :: "char \<Rightarrow> string \<Rightarrow> string list" where
  "split_on sep [] = [[]]"
| "split_on sep (c # cs) =
     (if c = sep then [] # split_on sep cs
      else (case split_on sep cs of
              [] \<Rightarrow> [[c]]
            | p # ps \<Rightarrow> (c # p) # ps))"

text \<open>\<^verbatim>\<open>sub in s\<close>\<close>

fun contains :: "string \<Rightarrow> string \<Rightarrow> bool" where
  "contains sub [] = (sub = [])"
| "contains sub (c # cs) = (take (length sub) (c # cs) = sub \<or> contains sub cs)"

text \<open>
  \<^verbatim>\<open>s.split(sep, 1)[1]\<close>: the text after the first occurrence of \<open>sep\<close>;
  \<open>None\<close> when \<open>sep\<close> does not occur (the index would be out of range).
\<close>

fun split_after :: "string \<Rightarrow> string \<Rightarrow> string option" where
  "split_after sep [] = (if sep = [] then Some [] else None)"
| "split_after sep (c # cs) =
     (if take (length sep) (c # cs) = sep then Some (drop (length sep) (c # cs))
      else split_after sep cs)"

section \<open>Address parsing\<close>

definition TERMINAL_CITY_MAP :: "(string \<times> (string \<times> string)) list" where
  "TERMINAL_CITY_MAP =
    [(''ITS LONG BEACH'', (''Long Beach'', ''CA'')),
     (''TTI'', (''Long Beach'', ''CA'')),
     (''TRAPAC WILMINGTON'', (''Wilmington'', ''CA'')),
     (''LBCT'', (''Long Beach'', ''CA'')),
     (''WBCT'', (''Long Beach'', ''CA'')),
     (''APM LOS ANGELES'', (''Los Angeles'', ''CA'')),
     (''FENIX'', (''Terminal Island'', ''CA'')),
     (''YTI'', (''Long Beach'', ''CA'')),
     (''EVERPORT TERMINAL ISLAND'', (''Terminal Island'', ''CA'')),
     (''PIER A'', (''Long Beach'', ''CA'')),
     (''MATSON'', (''Long Beach'', ''CA'')),
     (''OOCL'', (''Long Beach'', ''CA'')),
     (''SSA'', (''Long Beach'', ''CA'')),
     (''ITS CARSON'', (''Carson'', ''CA'')),
     (''SHIPPERS TRANSPORT CARSON'', (''Carson'', ''CA'')),
     (''ODW LOGISTICS'', (''Long Beach'', ''CA'')),
     (''BNSF SAN BERNARDINO'', (''San Bernardino'', ''CA''))]"

definition US_STATES :: "string list" where
  "US_STATES =
    [''AL'', ''AK'', ''AZ'', ''AR'', ''CA'', ''CO'', ''CT'', ''DE'', ''FL'', ''GA'',
     ''HI'', ''ID'', ''IL'', ''IN'', ''IA'', ''KS'', ''KY'', ''LA'', ''ME'', ''MD'',
     ''MA'', ''MI'', ''MN'', ''MS'', ''MO'', ''MT'', ''NE'', ''NV'', ''NH'', ''NJ'',
     ''NM'', ''NY'', ''NC'', ''ND'', ''OH'', ''OK'', ''OR'', ''PA'', ''RI'', ''SC'',
     ''SD'', ''TN'', ''TX'', ''UT'', ''VT'', ''VA'', ''WA'', ''WV'', ''WI'', ''WY'']"

text \<open>
  \<^verbatim>\<open>re.match(r"^([A-Z]{2})\s+\d{5}", part)\<close>: two capitals, at least one blank, five
  digits, at the start of \<open>part\<close>. The result is group 1. Blanks and digits are
  disjoint, so the greedy \<^verbatim>\<open>\s+\<close> takes the whole run of blanks.
\<close>

definition match_state_zip :: "string \<Rightarrow> string option" where
  "match_state_zip part =
     (case part of
        a # b # rest \<Rightarrow>
          (let blanks = takeWhile is_space rest; after = dropWhile is_space rest in
           if is_upper a \<and> is_upper b \<and> blanks \<noteq> [] \<and> 5 \<le> length after
              \<and> list_all is_digit (take 5 after)
           then Some [a, b] else None)
      | _ \<Rightarrow> None)"

text \<open>
  The loop \<^verbatim>\<open>for i, part in enumerate(parts)\<close>. The argument \<open>prev_part\<close> is
  \<^verbatim>\<open>parts[i - 1]\<close>, and \<open>None\<close> at \<^verbatim>\<open>i = 0\<close>, where the test \<^verbatim>\<open>i > 0\<close> fails.
\<close>

fun scan_parts :: "string option \<Rightarrow> string list \<Rightarrow> (string \<times> string) option" where
  "scan_parts prev_part [] = None"
| "scan_parts prev_part (part # rest) =
     (case match_state_zip part of
        None \<Rightarrow> scan_parts (Some part) rest
      | Some st \<Rightarrow>
          (case prev_part of
             None \<Rightarrow> scan_parts (Some part) rest
           | Some city \<Rightarrow>
               if st \<in> set US_STATES then Some (title (strip city), st)
               else scan_parts (Some part) rest))"

definition parse_city_state_from_address :: "string option \<Rightarrow> string \<times> string" where
  "parse_city_state_from_address address_str =
     (case address_str of
        None \<Rightarrow> (''Unknown'', ''??'')
      | Some a \<Rightarrow>
          if a = [] then (''Unknown'', ''??'')
          else (case scan_parts None (map strip (split_on (CHR '','') a)) of
                  Some r \<Rightarrow> r
                | None \<Rightarrow> (''Unknown'', ''??'')))"

text \<open>\<^verbatim>\<open>str(load.get(key, ""))\<close>\<close>

definition get_str :: "string option \<Rightarrow> string" where
  "get_str v = (case v of None \<Rightarrow> [] | Some s \<Rightarrow> s)"

record raw_load =
  loadCompletedAt :: "string option"
  loadCompletedDate :: "string option"
  shipperAddress :: "string option"
  shipperName :: "string option"
  consigneeAddress :: "string option"
  consigneeName :: "string option"
  reference_number :: "string option"
  type_of_load :: "string option"
  terminalHold :: "bool option"
  custom :: "string option"
  totalAmount :: "rat option"
  totalWeight :: "rat option"
  totalMiles :: "rat option"
  callerName :: "string option"
  caller :: "string option option"
  status :: "string option"
  containerNo :: "string option"

text \<open>
  The field \<open>caller\<close> is \<open>None\<close> when the payload has no dictionary under
  \<^verbatim>\<open>"caller"\<close>, and \<open>Some i\<close> for a dictionary whose \<^verbatim>\<open>"_id"\<close> is \<open>i\<close>.
\<close>

definition resolve_pickup_city :: "raw_load \<Rightarrow> string \<times> string" where
  "resolve_pickup_city load =
     (let (city, state) = parse_city_state_from_address (shipperAddress load) in
      if city \<noteq> ''Unknown'' then (city, state)
      else
        (let shipper_name = strip (upper (get_str (shipperName load))) in
         case map_of TERMINAL_CITY_MAP shipper_name of
           Some r \<Rightarrow> r
         | None \<Rightarrow>
             (case split_after '' - '' shipper_name of
                Some rest \<Rightarrow> (title (strip rest), ''CA'')
              | None \<Rightarrow> (''Unknown'', ''CA''))))"

definition resolve_delivery_city :: "raw_load \<Rightarrow> string \<times> string" where
  "resolve_delivery_city load =
     (let (city, state) = parse_city_state_from_address (consigneeAddress load) in
      if city \<noteq> ''Unknown'' then (city, state)
      else
        (let consignee_name = strip (upper (get_str (consigneeName load))) in
         case split_after '' - '' consignee_name of
           Some rest \<Rightarrow> (title (strip rest), ''CA'')
         | None \<Rightarrow> (''Unknown'', ''??'')))"

section \<open>Calendar dates\<close>

text \<open>
  A \<^verbatim>\<open>datetime\<close> value, reduced to its date. The functions below are those of
  Python's \<^verbatim>\<open>datetime\<close> module (\<^verbatim>\<open>_is_leap\<close>, \<^verbatim>\<open>_days_in_month\<close>,
  \<^verbatim>\<open>_days_before_year\<close>, \<^verbatim>\<open>_days_before_month\<close>, \<^verbatim>\<open>_ymd2ord\<close>,
  \<^verbatim>\<open>weekday\<close>), on the proleptic Gregorian calendar.
\<close>

record date =
  year :: int
  month :: int
  day :: int

definition is_leap :: "int \<Rightarrow> bool" where
  "is_leap y = (y mod 4 = 0 \<and> (y mod 100 \<noteq> 0 \<or> y mod 400 = 0))"

definition month_length :: "int \<Rightarrow> int \<Rightarrow> int" where
  "month_length y m =
     (if m = 2 \<and> is_leap y then 29
      else [31, 28, 31, 30, 31, 30, 31, 31, 30, 31, 30, 31] ! nat (m - 1))"

definition days_before_year :: "int \<Rightarrow> int" where
  "days_before_year y = (y - 1) * 365 + (y - 1) div 4 - (y - 1) div 100 + (y - 1) div 400"

definition days_before_month :: "int \<Rightarrow> int \<Rightarrow> int" where
  "days_before_month y m =
     [0, 31, 59, 90, 120, 151, 181, 212, 243, 273, 304, 334] ! nat (m - 1)
       + (if 2 < m \<and> is_leap y then 1 else 0)"

definition ymd2ord :: "date \<Rightarrow> int" where
  "ymd2ord d = days_before_year (year d) + days_before_month (year d) (month d) + day d"

text \<open>\<^verbatim>\<open>dt.weekday()\<close>: Monday is 0.\<close>

definition weekday :: "date \<Rightarrow> int" where
  "weekday d = (ymd2ord d + 6) mod 7"

definition valid_date :: "date \<Rightarrow> bool" where
  "valid_date d =
     (1 \<le> year d \<and> year d \<le> 9999 \<and> 1 \<le> month d \<and> month d \<le> 12
      \<and> 1 \<le> day d \<and> day d \<le> month_length (year d) (month d))"

text \<open>The constructor \<^verbatim>\<open>datetime(y, m, d)\<close> with its range check.\<close>

definition mk_date :: "int \<Rightarrow> int \<Rightarrow> int \<Rightarrow> py_error + date" where
  "mk_date y m d =
     (if valid_date \<lparr>year = y, month = m, day = d\<rparr>
      then Inr \<lparr>year = y, month = m, day = d\<rparr> else Inl ValueError)"

text \<open>
  \<^verbatim>\<open>dt - timedelta(days=1)\<close>: the calendar day before, and \<^verbatim>\<open>OverflowError\<close>
  before the first day of year 1.
\<close>

definition prev_day :: "date \<Rightarrow> py_error + date" where
  "prev_day d =
     (if 1 < day d then Inr (d\<lparr>day := day d - 1\<rparr>)
      else if 1 < month d then
        Inr (d\<lparr>month := month d - 1, day := month_length (year d) (month d - 1)\<rparr>)
      else if 1 < year d then Inr \<lparr>year = year d - 1, month = 12, day = 31\<rparr>
      else Inl OverflowError)"

text \<open>\<^verbatim>\<open>dt - timedelta(days=k)\<close>, one day at a time.\<close>

fun sub_days :: "date \<Rightarrow> nat \<Rightarrow> py_error + date" where
  "sub_days d 0 = Inr d"
| "sub_days d (Suc k) = (case prev_day d of Inl e \<Rightarrow> Inl e | Inr d' \<Rightarrow> sub_days d' k)"

definition digit_val :: "char \<Rightarrow> int" where
  "digit_val c = int (code c) - 48"

definition digit_char :: "int \<Rightarrow> char" where
  "digit_char n = char_of (48 + n)"

text \<open>
  The month of \<^verbatim>\<open>%m\<close>, \<^verbatim>\<open>1[0-2]|0[1-9]|[1-9]\<close>, with the text left after it.
\<close>

definition parse_month :: "string \<Rightarrow> (int \<times> string) option" where
  "parse_month s =
     (case s of
        [] \<Rightarrow> None
      | a # r \<Rightarrow>
          (case r of
             b # r' \<Rightarrow>
               if a = CHR ''1'' \<and> b \<in> set ''012'' then Some (10 + digit_val b, r')
               else if a = CHR ''0'' \<and> is_digit b \<and> b \<noteq> CHR ''0'' then Some (digit_val b, r')
               else if is_digit a \<and> a \<noteq> CHR ''0'' then Some (digit_val a, r)
               else None
           | [] \<Rightarrow> if is_digit a \<and> a \<noteq> CHR ''0'' then Some (digit_val a, r) else None))"

text \<open>
  The day of \<^verbatim>\<open>%d\<close>, \<^verbatim>\<open>3[01]|[12]\d|0[1-9]|[1-9]| [1-9]\<close>, which must end the text
  (\<^verbatim>\<open>strptime\<close> raises \<^verbatim>\<open>ValueError\<close> when unconverted data remains).
\<close>

definition parse_day :: "string \<Rightarrow> int option" where
  "parse_day s =
     (case s of
        [a] \<Rightarrow> if is_digit a \<and> a \<noteq> CHR ''0'' then Some (digit_val a) else None
      | [a, b] \<Rightarrow>
          if a = CHR ''3'' \<and> b \<in> set ''01'' then Some (30 + digit_val b)
          else if a \<in> set ''12'' \<and> is_digit b then Some (10 * digit_val a + digit_val b)
          else if a \<in> set ''0 '' \<and> is_digit b \<and> b \<noteq> CHR ''0'' then Some (digit_val b)
          else None
      | _ \<Rightarrow> None)"

text \<open>\<^verbatim>\<open>datetime.strptime(s, "%Y-%m-%d")\<close>\<close>

definition strptime_ymd :: "string \<Rightarrow> py_error + date" where
  "strptime_ymd s =
     (case s of
        y1 # y2 # y3 # y4 # dash # r \<Rightarrow>
          if list_all is_digit [y1, y2, y3, y4] \<and> dash = CHR ''-'' then
            (case parse_month r of
               None \<Rightarrow> Inl ValueError
             | Some (m, r') \<Rightarrow>
                 (case r' of
                    [] \<Rightarrow> Inl ValueError
                  | dash' # r'' \<Rightarrow>
                      if dash' = CHR ''-'' then
                        (case parse_day r'' of
                           None \<Rightarrow> Inl ValueError
                         | Some d \<Rightarrow>
                             mk_date (1000 * digit_val y1 + 100 * digit_val y2
                                        + 10 * digit_val y3 + digit_val y4) m d)
                      else Inl ValueError))
          else Inl ValueError
      | _ \<Rightarrow> Inl ValueError)"

definition pad2 :: "int \<Rightarrow> string" where
  "pad2 n = [digit_char (n div 10), digit_char (n mod 10)]"

definition pad4 :: "int \<Rightarrow> string" where
  "pad4 n = [digit_char (n div 1000), digit_char (n div 100 mod 10),
             digit_char (n div 10 mod 10), digit_char (n mod 10)]"

text \<open>
  \<^verbatim>\<open>dt.strftime("%Y-%m-%d")\<close> and \<^verbatim>\<open>dt.strftime("%Y-%m-01")\<close>, with the year written in
  four digits.
\<close>

definition strftime_ymd :: "date \<Rightarrow> string" where
  "strftime_ymd d = pad4 (year d) @ ''-'' @ pad2 (month d) @ ''-'' @ pad2 (day d)"

definition strftime_ym01 :: "date \<Rightarrow> string" where
  "strftime_ym01 d = pad4 (year d) @ ''-'' @ pad2 (month d) @ ''-01''"

section \<open>Cargo owner and exception label\<close>

text \<open>\<^verbatim>\<open>load.get(key, "") or default\<close>\<close>

definition get_or :: "string option \<Rightarrow> string \<Rightarrow> string" where
  "get_or v dflt = (case v of None \<Rightarrow> dflt | Some s \<Rightarrow> if s = [] then dflt else s)"

text \<open>\<^verbatim>\<open>float(load.get(key, 0) or 0)\<close>\<close>

definition get_float :: "rat option \<Rightarrow> rat" where
  "get_float v = (case v of None \<Rightarrow> 0 | Some x \<Rightarrow> x)"

definition derive_bco :: "raw_load \<Rightarrow> string" where
  "derive_bco load =
     (let ref = get_str (reference_number load);
          load_type = get_str (type_of_load load) in
      if load_type = ''IMPORT'' \<or> contains ''_M'' ref then
        get_or (consigneeName load) ''Unknown BCO''
      else if load_type = ''ROAD'' \<or> contains ''_R'' ref then
        get_or (shipperName load) ''Unknown BCO''
      else ''Direct'')"

definition classify_exception :: "raw_load \<Rightarrow> string" where
  "classify_exception load =
     (if terminalHold load = Some True \<or> upper (get_str (custom load)) = ''HOLD''
      then ''Uncontrollable Event'' else [])"

section \<open>The Record Normalizer\<close>

record nload =
  load_id :: string
  customer_name :: string
  customer_id :: string
  shipper_name :: string
  consignee_name :: string
  pickup_city :: string
  pickup_state :: string
  delivery_city :: string
  delivery_state :: string
  lane :: string
  bco_derived :: string
  pricing_total :: rat
  total_weight :: rat
  status :: string
  type_of_load :: string
  completed_date :: string
  week_start :: string
  month_start :: string
  container_no :: string
  distance_miles :: rat
  exception_label :: string
  on_time_pickup :: int
  on_time_delivery :: int

text \<open>The arrow of the lane text is U+2192, here its three UTF-8 bytes.\<close>

definition arrow :: string where
  "arrow = [CHR 0xE2, CHR 0x86, CHR 0x92]"

definition completed_at_of :: "raw_load \<Rightarrow> string" where
  "completed_at_of load = get_or (loadCompletedAt load) (get_or (loadCompletedDate load) [])"

text \<open>
  The body of the loop of \<^verbatim>\<open>flatten_loads\<close>: \<open>Inr None\<close> is \<^verbatim>\<open>continue\<close>,
  \<open>Inr (Some r)\<close> appends \<open>r\<close>, \<open>Inl e\<close> is an exception that the
  \<^verbatim>\<open>except ValueError\<close> clause does not catch.
\<close>

definition flatten_load :: "raw_load \<Rightarrow> py_error + nload option" where
  "flatten_load load =
     (let completed_at = completed_at_of load in
      if completed_at = [] then Inr None
      else
        (let completed_date = take 10 completed_at in
         case strptime_ymd completed_date of
           Inl ValueError \<Rightarrow> Inr None
         | Inl e \<Rightarrow> Inl e
         | Inr dt \<Rightarrow>
             (case sub_days dt (nat (weekday dt)) of
                Inl ValueError \<Rightarrow> Inr None
              | Inl e \<Rightarrow> Inl e
              | Inr monday \<Rightarrow>
                  (let (pickup_city, pickup_state) = resolve_pickup_city load;
                       (delivery_city, delivery_state) = resolve_delivery_city load;
                       total_revenue = get_float (totalAmount load) in
                   Inr (Some
                     \<lparr>load_id = get_str (reference_number load),
                      customer_name = (case callerName load of None \<Rightarrow> ''Unknown'' | Some n \<Rightarrow> n),
                      customer_id = (case caller load of None \<Rightarrow> [] | Some i \<Rightarrow> get_str i),
                      shipper_name = get_str (shipperName load),
                      consignee_name = get_str (consigneeName load),
                      pickup_city = pickup_city,
                      pickup_state = pickup_state,
                      delivery_city = delivery_city,
                      delivery_state = delivery_state,
                      lane = pickup_city @ '', '' @ pickup_state @ '' '' @ arrow @ '' ''
                               @ delivery_city @ '', '' @ delivery_state,
                      bco_derived = derive_bco load,
                      pricing_total = total_revenue,
                      total_weight = get_float (totalWeight load),
                      status = get_str (raw_load.status load),
                      type_of_load = get_str (raw_load.type_of_load load),
                      completed_date = completed_date,
                      week_start = strftime_ymd monday,
                      month_start = strftime_ym01 dt,
                      container_no = get_str (containerNo load),
                      distance_miles = get_float (totalMiles load),
                      exception_label = classify_exception load,
                      on_time_pickup = 1,
                      on_time_delivery = 1\<rparr>)))))"

fun flatten_loads :: "raw_load list \<Rightarrow> py_error + nload list" where
  "flatten_loads [] = Inr []"
| "flatten_loads (load # raw_loads) =
     (case flatten_load load of
        Inl e \<Rightarrow> Inl e
      | Inr rec \<Rightarrow>
          (case flatten_loads raw_loads of
             Inl e \<Rightarrow> Inl e
           | Inr records \<Rightarrow> Inr ((case rec of None \<Rightarrow> [] | Some r \<Rightarrow> [r]) @ records)))"

section \<open>The entity master list\<close>

record raw_customer =
  customer__id :: "string option"
  company_name :: "string option"

text \<open>The field \<open>customer__id\<close> is the key \<^verbatim>\<open>"_id"\<close>; \<open>cid\<close> is the column \<^verbatim>\<open>"id"\<close>.\<close>

record customer =
  cid :: string
  name :: string
  tier :: int
  is_broker :: bool

definition build_customer_master :: "raw_customer list \<Rightarrow> customer list" where
  "build_customer_master raw_customers =
     map (\<lambda>cust. \<lparr>cid = get_str (customer__id cust),
                    name = (case company_name cust of None \<Rightarrow> ''Unknown'' | Some n \<Rightarrow> n),
                    tier = 2,
                    is_broker = True\<rparr>) raw_customers"

section \<open>The Period Aggregator\<close>

datatype period_col = Week_start | Month_start

fun period_of :: "period_col \<Rightarrow> nload \<Rightarrow> string" where
  "period_of Week_start l = week_start l"
| "period_of Month_start l = month_start l"

text \<open>
  A row of the skeleton; the column \<open>period\<close> is the column named by \<^verbatim>\<open>period_col\<close>.
\<close>

record skeleton_row =
  customer_name :: string
  customer_id :: string
  customer_tier :: int
  period :: string

text \<open>A row of the result: the skeleton row and the statistics, after \<^verbatim>\<open>fillna\<close>.\<close>

record period_row = skeleton_row +
  loads :: nat
  revenue :: rat
  avg_revenue :: rat
  otp :: "rat option"
  otd :: "rat option"
  uncontrollable_events :: nat

text \<open>A row of \<^verbatim>\<open>load_df.groupby(["customer_name", period_col]).agg(...)\<close>.\<close>

record group_row =
  g_customer_name :: string
  g_period :: string
  g_loads :: nat
  g_revenue :: rat
  g_avg_revenue :: rat
  g_otp :: rat
  g_otd :: rat
  g_uncontrollable_events :: nat

definition mean :: "rat list \<Rightarrow> rat" where
  "mean xs = sum_list xs / of_nat (length xs)"

definition group_key :: "period_col \<Rightarrow> nload \<Rightarrow> string \<times> string" where
  "group_key pc l = (nload.customer_name l, period_of pc l)"

definition groupby_agg :: "period_col \<Rightarrow> nload list \<Rightarrow> group_row list" where
  "groupby_agg pc load_df =
     map (\<lambda>k.
            (let g = filter (\<lambda>l. group_key pc l = k) load_df in
             \<lparr>g_customer_name = fst k,
              g_period = snd k,
              g_loads = length (map load_id g),
              g_revenue = sum_list (map pricing_total g),
              g_avg_revenue = mean (map pricing_total g),
              g_otp = mean (map (\<lambda>l. of_int (on_time_pickup l)) g),
              g_otd = mean (map (\<lambda>l. of_int (on_time_delivery l)) g),
              g_uncontrollable_events =
                length (filter (\<lambda>l. exception_label l = ''Uncontrollable Event'') g)\<rparr>))
         (sort (remdups (map (group_key pc) load_df)))"

definition skeleton_rows :: "customer list \<Rightarrow> string list \<Rightarrow> skeleton_row list" where
  "skeleton_rows customer_master periods =
     concat (map (\<lambda>p. map (\<lambda>cust. \<lparr>customer_name = name cust,
                                     customer_id = cid cust,
                                     customer_tier = tier cust,
                                     period = p\<rparr>) customer_master) periods)"

text \<open>
  \<^verbatim>\<open>skeleton.merge(agg, on=["customer_name", period_col], how="left")\<close>: every left
  row, in order, once for each right row with its key, and once with no partner when
  there is none.
\<close>

definition merge_left :: "skeleton_row list \<Rightarrow> group_row list
    \<Rightarrow> (skeleton_row \<times> group_row option) list" where
  "merge_left skeleton agg =
     concat (map (\<lambda>s.
        (case filter (\<lambda>a. g_customer_name a = customer_name s \<and> g_period a = period s) agg of
           [] \<Rightarrow> [(s, None)]
         | ms \<Rightarrow> map (\<lambda>a. (s, Some a)) ms)) skeleton)"

definition fillna :: "skeleton_row \<times> group_row option \<Rightarrow> period_row" where
  "fillna m =
     (case snd m of
        None \<Rightarrow> skeleton_row.extend (fst m) (period_row.fields 0 0 0 None None 0)
      | Some a \<Rightarrow>
          skeleton_row.extend (fst m)
            (period_row.fields (g_loads a) (g_revenue a) (g_avg_revenue a)
               (Some (g_otp a)) (Some (g_otd a)) (g_uncontrollable_events a)))"

definition skeleton_join :: "nload list \<Rightarrow> customer list \<Rightarrow> period_col \<Rightarrow> period_row list" where
  "skeleton_join load_df customer_master pc =
     (if load_df = [] \<or> customer_master = [] then []
      else
        (let periods = sort (remdups (map (period_of pc) load_df));
             skeleton = skeleton_rows customer_master periods;
             agg = groupby_agg pc load_df;
             merged = merge_left skeleton agg
         in map fillna merged))"

section \<open>The Trend and Change Engine\<close>

text \<open>\<^verbatim>\<open>round(x)\<close> to an integer, ties to even, and \<^verbatim>\<open>round(x, 1)\<close>.\<close>

definition round_half_even :: "rat \<Rightarrow> int" where
  "round_half_even x =
     (let f = \<lfloor>x\<rfloor>; r = x - of_int f in
      if r < 1 / 2 then f else if 1 / 2 < r then f + 1 else if even f then f else f + 1)"

definition round1 :: "rat \<Rightarrow> rat" where
  "round1 x = of_int (round_half_even (x * 10)) / 10"

text \<open>\<^verbatim>\<open>str(n)\<close> for a natural number, and the format \<^verbatim>\<open>f"{x:+.1f}"\<close>.\<close>

function dec_digits :: "nat \<Rightarrow> string" where
  "dec_digits n =
     (if n < 10 then [digit_char (int n)]
      else dec_digits (n div 10) @ [digit_char (int (n mod 10))])"
  by pat_completeness auto
termination
  by (relation "measure id") auto

definition format_plus_1f :: "rat \<Rightarrow> string" where
  "format_plus_1f x =
     (let tenths = nat \<bar>round_half_even (x * 10)\<bar> in
      (if x < 0 then ''-'' else ''+'') @ dec_digits (tenths div 10) @ ''.''
        @ [digit_char (int (tenths mod 10))])"

record trend_row = period_row +
  prev_loads :: "nat option"
  change_pct :: "rat option"
  change_label :: string
  trailing_4_avg :: "rat option"
  volume_trend :: string
  service_risk :: string

text \<open>
  The load counts of the rows of the same entity that come before a row:
  \<^verbatim>\<open>groupby("customer_name")\<close> seen from that row.
\<close>

definition group_history :: "period_row list \<Rightarrow> period_row \<Rightarrow> nat list" where
  "group_history seen r = map loads (filter (\<lambda>s. customer_name s = customer_name r) seen)"

text \<open>\<^verbatim>\<open>shift(1)\<close> and \<^verbatim>\<open>shift(1).rolling(4, min_periods=1).mean()\<close> at a row.\<close>

definition shift1 :: "nat list \<Rightarrow> nat option" where
  "shift1 h = (if h = [] then None else Some (last h))"

definition rolling4_mean :: "nat list \<Rightarrow> rat option" where
  "rolling4_mean h =
     (let w = drop (length h - 4) h in
      if w = [] then None else Some (mean (map of_nat w)))"

definition change_pct_of :: "nat \<Rightarrow> nat option \<Rightarrow> rat option" where
  "change_pct_of cur prev =
     (case prev of
        None \<Rightarrow> None
      | Some p \<Rightarrow>
          if 0 < p then Some (round1 ((of_nat cur - of_nat p) / of_nat p * 100)) else None)"

definition change_label_of :: "nat option \<Rightarrow> rat option \<Rightarrow> string" where
  "change_label_of prev chg =
     (case prev of
        None \<Rightarrow> ''NEW''
      | Some p \<Rightarrow> (case chg of Some c \<Rightarrow> format_plus_1f c | None \<Rightarrow> ''0''))"

definition volume_trend_of :: "nat \<Rightarrow> rat option \<Rightarrow> string" where
  "volume_trend_of cur t4 =
     (if t4 \<noteq> None \<and> 0 < the t4 \<and> of_nat cur > the t4 * (11 / 10) then ''UP''
      else if t4 \<noteq> None \<and> 0 < the t4 \<and> of_nat cur < the t4 * (9 / 10) then ''DOWN''
      else if cur = 0 \<and> (t4 = None \<or> the t4 = 0) then ''N/A''
      else ''STABLE'')"

definition service_risk_of :: "rat option \<Rightarrow> string" where
  "service_risk_of x =
     (if x \<noteq> None \<and> the x < 9 / 10 then ''AT RISK''
      else if x = None then ''N/A'' else ''OK'')"

definition trend_of :: "nat list \<Rightarrow> period_row \<Rightarrow> trend_row" where
  "trend_of h r =
     (let prev = shift1 h; chg = change_pct_of (loads r) prev; t4 = rolling4_mean h in
      period_row.extend r
        (trend_row.fields prev chg (change_label_of prev chg) t4
           (volume_trend_of (loads r) t4) (service_risk_of (otd r))))"

fun add_trend :: "period_row list \<Rightarrow> period_row list \<Rightarrow> trend_row list" where
  "add_trend seen [] = []"
| "add_trend seen (r # rs) = trend_of (group_history seen r) r # add_trend (seen @ [r]) rs"

definition add_wow_and_flags :: "period_row list \<Rightarrow> trend_row list" where
  "add_wow_and_flags df =
     add_trend [] (sort_key (\<lambda>r. (customer_name r, period r)) df)"

section \<open>The Run-Rate Projector\<close>

record monthly_row = trend_row +
  is_current_month :: bool
  run_rate_loads :: int
  run_rate_revenue :: rat

text \<open>\<^verbatim>\<open>int(x)\<close> on a float: truncation towards zero.\<close>

definition py_int :: "rat \<Rightarrow> int" where
  "py_int x = (if 0 \<le> x then \<lfloor>x\<rfloor> else \<lceil>x\<rceil>)"

definition run_rate_row :: "string \<Rightarrow> int \<Rightarrow> int \<Rightarrow> trend_row \<Rightarrow> monthly_row" where
  "run_rate_row current_month days_elapsed days_in_month r =
     (let current = (period r = current_month) in
      trend_row.extend r
        (monthly_row.fields current
           (if 0 < days_elapsed then
              (if current
               then py_int (of_nat (loads r) / of_int days_elapsed * of_int days_in_month)
               else int (loads r))
            else int (loads r))
           (if 0 < days_elapsed then
              (if current
               then of_int (round_half_even (revenue r / of_int days_elapsed * of_int days_in_month))
               else revenue r)
            else revenue r)))"

definition add_run_rate :: "date \<Rightarrow> trend_row list \<Rightarrow> py_error + monthly_row list" where
  "add_run_rate today monthly_df =
     (if monthly_df = [] then Inr []
      else
        (let current_month = strftime_ym01 today;
             days_elapsed = day today in
         case (if month today = 12 then mk_date (year today + 1) 1 1
               else mk_date (year today) (month today + 1) 1) of
           Inl e \<Rightarrow> Inl e
         | Inr next_month \<Rightarrow>
             (case mk_date (year today) (month today) 1 of
                Inl e \<Rightarrow> Inl e
              | Inr first \<Rightarrow>
                  (let days_in_month = ymd2ord next_month - ymd2ord first in
                   Inr (map (run_rate_row current_month days_elapsed days_in_month)
                          monthly_df)))))"

section \<open>The Risk Flag Engine\<close>

record risk_row =
  customer_name :: string
  weekly_revenue :: rat
  weekly_loads :: nat
  wow_change_pct :: rat
  on_time_delivery_pct :: "rat option"
  risk_flag :: string

text \<open>\<^verbatim>\<open>sep.join(xs)\<close>\<close>

fun join :: "string \<Rightarrow> string list \<Rightarrow> string" where
  "join sep [] = []"
| "join sep [x] = x"
| "join sep (x # y # ys) = x @ sep @ join sep (y # ys)"

text \<open>
  \<^verbatim>\<open>all_weeks.index(selected_week) if selected_week in all_weeks else -1\<close>
\<close>

definition week_index :: "string list \<Rightarrow> string \<Rightarrow> int" where
  "week_index all_weeks selected_week =
     (if selected_week \<in> set all_weeks
      then int (length (takeWhile (\<lambda>w. w \<noteq> selected_week) all_weeks)) else - 1)"

text \<open>\<^verbatim>\<open>xs[a:b]\<close> for \<open>a\<close> and \<open>b\<close> that are not negative.\<close>

definition slice :: "'a list \<Rightarrow> int \<Rightarrow> int \<Rightarrow> 'a list" where
  "slice xs a b = drop (nat a) (take (nat b) xs)"

definition trailing_weeks :: "trend_row list \<Rightarrow> string \<Rightarrow> string list" where
  "trailing_weeks weekly_customer selected_week =
     (let all_weeks = sort (remdups (map period weekly_customer));
          week_idx = week_index all_weeks selected_week in
      if 0 < week_idx then slice all_weeks (max 0 (week_idx - 12)) week_idx else [])"

text \<open>
  \<^verbatim>\<open>trailing.groupby("customer_name")["loads"].sum().get(cust, 0)\<close>
\<close>

definition trailing_loads_by_cust :: "trend_row list \<Rightarrow> string \<Rightarrow> nat" where
  "trailing_loads_by_cust trailing cust =
     (case filter (\<lambda>r. skeleton_row.customer_name r = cust) trailing of
        [] \<Rightarrow> 0
      | g \<Rightarrow> sum_list (map loads g))"

definition revenue_share_of :: "rat \<Rightarrow> trend_row \<Rightarrow> rat" where
  "revenue_share_of total_revenue row =
     (if 0 < total_revenue then revenue row / total_revenue * 100 else 0)"

text \<open>The list \<^verbatim>\<open>flags\<close> that the loop builds for one row of the target week.\<close>

definition row_flags :: "trend_row list \<Rightarrow> rat \<Rightarrow> trend_row \<Rightarrow> string list" where
  "row_flags trailing total_revenue row =
     (let cust = skeleton_row.customer_name row;
          rev_share = revenue_share_of total_revenue row;
          change = (case change_pct row of Some c \<Rightarrow> c | None \<Rightarrow> 0);
          trailing_had_loads = (0 < trailing_loads_by_cust trailing cust);
          t4 = trailing_4_avg row in
      (if loads row = 0 \<and> trailing_had_loads then [''STALE ACCOUNT (0 LOADS)''] else [])
      @ (if 5 \<le> rev_share \<and> otd row \<noteq> None \<and> the (otd row) < 9 / 10
         then [''HIGH REVENUE + POOR SERVICE''] else [])
      @ (if 5 \<le> rev_share \<and> change < - 20 then [''HIGH REVENUE + DECLINING VOLUME''] else [])
      @ (if change < - 30 then [''SHARP WOW DROP''] else [])
      @ (if t4 \<noteq> None \<and> 0 < the t4 \<and> of_nat (loads row) < the t4 * (7 / 10)
         then [''BELOW TRAILING AVERAGE''] else []))"

definition risk_of :: "trend_row \<Rightarrow> string list \<Rightarrow> risk_row" where
  "risk_of row flags =
     \<lparr>customer_name = skeleton_row.customer_name row,
      weekly_revenue = revenue row,
      weekly_loads = loads row,
      wow_change_pct = (case change_pct row of Some c \<Rightarrow> c | None \<Rightarrow> 0),
      on_time_delivery_pct = (case otd row of Some x \<Rightarrow> Some (round1 (x * 100)) | None \<Rightarrow> None),
      risk_flag = join '' | '' flags\<rparr>"

definition compute_risk_flags :: "trend_row list \<Rightarrow> nload list \<Rightarrow> string \<Rightarrow> risk_row list" where
  "compute_risk_flags weekly_customer completed_df selected_week =
     (if weekly_customer = [] then []
      else
        (let current = filter (\<lambda>r. period r = selected_week) weekly_customer in
         if current = [] then []
         else
           (let total_revenue = sum_list (map revenue current);
                trailing = filter (\<lambda>r. period r \<in> set (trailing_weeks weekly_customer selected_week))
                             weekly_customer
            in concat (map (\<lambda>row.
                 (let flags = row_flags trailing total_revenue row in
                  if flags \<noteq> [] then [risk_of row flags] else [])) current))))"

section \<open>The Lane Risk Attributor and the lane table\<close>

record lane_risk_row =
  customer_name :: string
  lane :: string
  volume :: nat
  revenue :: rat
  otd :: rat
  otd_pct :: rat

definition compute_lane_risks :: "nload list \<Rightarrow> string \<Rightarrow> lane_risk_row list" where
  "compute_lane_risks completed_df selected_week =
     (if completed_df = [] then []
      else
        (let week_loads = filter (\<lambda>l. week_start l = selected_week) completed_df in
         if week_loads = [] then []
         else
           (let lane_cust =
                  map (\<lambda>k.
                         (let g = filter (\<lambda>l. (nload.customer_name l, nload.lane l) = k) week_loads;
                              m = mean (map (\<lambda>l. of_int (on_time_delivery l)) g) in
                          \<lparr>customer_name = fst k,
                           lane = snd k,
                           volume = length (map load_id g),
                           revenue = sum_list (map pricing_total g),
                           otd = m,
                           otd_pct = round1 (m * 100)\<rparr>))
                      (sort (remdups (map (\<lambda>l. (nload.customer_name l, nload.lane l)) week_loads)))
            in sort_key (\<lambda>r. (lane_risk_row.customer_name r, - lane_risk_row.revenue r))
                 lane_cust)))"

record lane_row =
  customer_name :: string
  lane :: string
  week_start :: string
  volume :: nat
  revenue :: rat
  otd :: rat
  otd_pct :: rat

definition lane_table :: "nload list \<Rightarrow> lane_row list" where
  "lane_table completed_df =
     map (\<lambda>k.
            (let g = filter (\<lambda>l. (nload.customer_name l, nload.lane l, nload.week_start l) = k)
                       completed_df;
                 m = mean (map (\<lambda>l. of_int (on_time_delivery l)) g) in
             \<lparr>customer_name = fst k,
              lane = fst (snd k),
              week_start = snd (snd k),
              volume = length (map load_id g),
              revenue = sum_list (map pricing_total g),
              otd = m,
              otd_pct = round1 (m * 100)\<rparr>))
         (sort (remdups (map (\<lambda>l. (nload.customer_name l, nload.lane l, nload.week_start l))
                           completed_df)))"

section \<open>The pipeline\<close>

record tables =
  cleaned :: "nload list"
  weekly :: "trend_row list"
  monthly :: "monthly_row list"
  lanes :: "lane_row list"
  customer_master :: "customer list"

text \<open>
  \<^verbatim>\<open>transform_loads\<close> on a list of raw loads and a list of raw customers (the live
  path of the dashboard).
\<close>

definition transform_loads :: "date \<Rightarrow> raw_load list \<Rightarrow> raw_customer list
    \<Rightarrow> py_error + tables" where
  "transform_loads today raw_loads raw_customers =
     (case flatten_loads raw_loads of
        Inl e \<Rightarrow> Inl e
      | Inr df \<Rightarrow>
          (let master = build_customer_master raw_customers;
               completed_df = df;
               weekly0 = skeleton_join completed_df master Week_start;
               weekly_customer = (if weekly0 \<noteq> [] then add_wow_and_flags weekly0 else []);
               monthly0 = skeleton_join completed_df master Month_start
           in case (if monthly0 \<noteq> [] then add_run_rate today (add_wow_and_flags monthly0)
                    else Inr []) of
                Inl e \<Rightarrow> Inl e
              | Inr monthly_customer \<Rightarrow>
                  Inr \<lparr>cleaned = completed_df,
                       weekly = weekly_customer,
                       monthly = monthly_customer,
                       lanes = (if completed_df \<noteq> [] then lane_table completed_df else []),
                       customer_master = master\<rparr>))"

section \<open>The always-visible table, in the words of the specification\<close>

text \<open>
  The loads of one entity, matched by name, in one period.
\<close>

definition entity_group :: "period_col \<Rightarrow> nload list \<Rightarrow> string \<Rightarrow> string \<Rightarrow> nload list" where
  "entity_group pc load_df n p =
     filter (\<lambda>l. nload.customer_name l = n \<and> period_of pc l = p) load_df"

text \<open>
  The row that the specification describes for an entity of the master list and a
  period: the identity of the entity, the period, and the statistics of the entity's
  loads in that period; zero counts and sums and undefined rates when there are none.
\<close>

definition always_visible_row :: "period_col \<Rightarrow> nload list \<Rightarrow> customer \<Rightarrow> string
    \<Rightarrow> period_row" where
  "always_visible_row pc load_df cust p =
     (let g = entity_group pc load_df (name cust) p in
      \<lparr>skeleton_row.customer_name = name cust,
       customer_id = cid cust,
       customer_tier = tier cust,
       period = p,
       loads = length g,
       period_row.revenue = sum_list (map pricing_total g),
       avg_revenue = (if g = [] then 0 else mean (map pricing_total g)),
       otp = (if g = [] then None else Some (mean (map (\<lambda>l. of_int (on_time_pickup l)) g))),
       period_row.otd =
         (if g = [] then None else Some (mean (map (\<lambda>l. of_int (on_time_delivery l)) g))),
       uncontrollable_events =
         length (filter (\<lambda>l. exception_label l = ''Uncontrollable Event'') g)\<rparr>)"

section \<open>The trailing window, in the words of the specification\<close>




section \<open>Example inputs\<close>

definition bare_load :: raw_load where
  "bare_load =
     \<lparr>loadCompletedAt = None, loadCompletedDate = None, shipperAddress = None,
      shipperName = None, consigneeAddress = None, consigneeName = None,
      reference_number = None, type_of_load = None, terminalHold = None, custom = None,
      totalAmount = None, totalWeight = None, totalMiles = None, callerName = None,
      caller = None, status = None, containerNo = None\<rparr>"

definition acme_load :: raw_load where
  "acme_load =
     bare_load\<lparr>shipperAddress := Some ''Pier 400'', shipperName := Some ''Acme'',
               consigneeAddress := Some ''Pier 400'', consigneeName := Some ''Acme''\<rparr>"

definition march_10 :: date where
  "march_10 = \<lparr>year = 2024, month = 3, day = 10\<rparr>"

definition march_row :: trend_row where
  "march_row =
     \<lparr>skeleton_row.customer_name = ''Acme'', customer_id = ''c1'', customer_tier = 2,
      period = ''2024-03-01'', loads = 7, period_row.revenue = 1000, avg_revenue = 1000 / 7,
      otp = Some 1, period_row.otd = Some 1, uncontrollable_events = 0,
      prev_loads = None, change_pct = None, change_label = ''NEW'',
      trailing_4_avg = None, volume_trend = ''STABLE'', service_risk = ''OK''\<rparr>"

definition thursday_load :: raw_load where
  "thursday_load =
     bare_load\<lparr>loadCompletedAt := Some ''2024-03-14T10:00:00Z'', callerName := Some ''Acme'',
               reference_number := Some ''L-1'', totalAmount := Some 500\<rparr>"


definition next_week_load :: raw_load where
  "next_week_load =
     bare_load\<lparr>loadCompletedAt := Some ''2024-03-20T09:00:00Z'', callerName := Some ''Acme'',
               reference_number := Some ''L-2'', totalAmount := Some 700\<rparr>"

definition stranger_load :: raw_load where
  "stranger_load =
     bare_load\<lparr>loadCompletedAt := Some ''2024-03-21T09:00:00Z'', callerName := Some ''Ghost'',
               reference_number := Some ''L-3'', totalAmount := Some 900\<rparr>"

definition two_customers :: "raw_customer list" where
  "two_customers =
     [\<lparr>customer__id = Some ''c1'', company_name = Some ''Acme''\<rparr>,
      \<lparr>customer__id = Some ''c2'', company_name = Some ''Bolt''\<rparr>]"

text \<open>The normalized loads of three raw loads, and of the two of them that name Acme.\<close>

definition three_loads :: "nload list" where
  "three_loads =
     (case flatten_loads [thursday_load, next_week_load, stranger_load] of
        Inr df \<Rightarrow> df | Inl e \<Rightarrow> [])"

definition master2 :: "customer list" where
  "master2 = build_customer_master two_customers"

definition bolt :: customer where
  "bolt = \<lparr>cid = ''c2'', name = ''Bolt'', tier = 2, is_broker = True\<rparr>"




section \<open>Location Resolver\<close>

lemma split_after_None_iff: "(split_after sep s = None) = (\<not> contains sep s)"
  by (induction s) auto

lemma acme_pickup_address:
  "parse_city_state_from_address (shipperAddress acme_load) = (''Unknown'', ''??'')"
  by code_simp

lemma acme_delivery_address:
  "parse_city_state_from_address (consigneeAddress acme_load) = (''Unknown'', ''??'')"
  by code_simp

lemma acme_pickup_name:
  "map_of TERMINAL_CITY_MAP (strip (upper (get_str (shipperName acme_load)))) = None
   \<and> \<not> contains '' - '' (strip (upper (get_str (shipperName acme_load))))"
  by code_simp

lemma acme_delivery_name:
  "\<not> contains '' - '' (strip (upper (get_str (consigneeName acme_load))))"
  by code_simp

text \<open>
  Claim C7, as the code has it. Both resolvers are functions of the load alone, so they
  return a pair for every load. When the shipper address does not parse, the shipper
  name is not a key of the terminal table and does not contain \<^verbatim>\<open>" - "\<close>, the pickup
  resolver returns \<^verbatim>\<open>("Unknown", "CA")\<close>. When the consignee address does not parse and
  the consignee name does not contain \<^verbatim>\<open>" - "\<close>, the delivery resolver, which does not
  consult the terminal table, returns \<^verbatim>\<open>("Unknown", "??")\<close>.
\<close>

theorem resolve_fallback:
  "(fst (parse_city_state_from_address (shipperAddress load)) = ''Unknown''
      \<and> map_of TERMINAL_CITY_MAP (strip (upper (get_str (shipperName load)))) = None
      \<and> \<not> contains '' - '' (strip (upper (get_str (shipperName load))))
    \<longrightarrow> resolve_pickup_city load = (''Unknown'', ''CA''))
   \<and> (fst (parse_city_state_from_address (consigneeAddress load)) = ''Unknown''
      \<and> \<not> contains '' - '' (strip (upper (get_str (consigneeName load))))
    \<longrightarrow> resolve_delivery_city load = (''Unknown'', ''??''))"
  by (auto simp: resolve_pickup_city_def resolve_delivery_city_def Let_def
        split_after_None_iff[symmetric] split: prod.splits option.splits)

theorem resolve_fallback_witness:
  "fst (parse_city_state_from_address (shipperAddress acme_load)) = ''Unknown''
   \<and> map_of TERMINAL_CITY_MAP (strip (upper (get_str (shipperName acme_load)))) = None
   \<and> \<not> contains '' - '' (strip (upper (get_str (shipperName acme_load))))
   \<and> fst (parse_city_state_from_address (consigneeAddress acme_load)) = ''Unknown''
   \<and> \<not> contains '' - '' (strip (upper (get_str (consigneeName acme_load))))
   \<and> resolve_pickup_city acme_load = (''Unknown'', ''CA'')
   \<and> resolve_delivery_city acme_load = (''Unknown'', ''??'')"
  using resolve_fallback [of acme_load] acme_pickup_address acme_delivery_address
    acme_pickup_name acme_delivery_name
  by simp

text \<open>
  Claim C7 as stated fails: for a load whose shipper and consignee carry the same
  unparseable address and the same unknown name, nothing resolves on either side, and
  the state returned for the pickup differs from the state returned for the delivery.
\<close>

theorem resolve_same_sentinel_counterexample:
  "fst (parse_city_state_from_address (shipperAddress acme_load)) = ''Unknown''
   \<and> map_of TERMINAL_CITY_MAP (strip (upper (get_str (shipperName acme_load)))) = None
   \<and> \<not> contains '' - '' (strip (upper (get_str (shipperName acme_load))))
   \<and> fst (parse_city_state_from_address (consigneeAddress acme_load)) = ''Unknown''
   \<and> map_of TERMINAL_CITY_MAP (strip (upper (get_str (consigneeName acme_load)))) = None
   \<and> \<not> contains '' - '' (strip (upper (get_str (consigneeName acme_load))))
   \<and> snd (resolve_pickup_city acme_load) \<noteq> snd (resolve_delivery_city acme_load)"
  by code_simp

section \<open>Empty input\<close>

text \<open>
  Claim C8. On an empty list of raw loads the pipeline returns (it raises nothing), and
  the normalized loads, the weekly, monthly and lane tables are empty, whatever the
  entity list and the date; the risk flags and the lane risks of the empty tables are
  empty for every week.
\<close>

theorem empty_input_empty_tables:
  "transform_loads today [] raw_customers =
     Inr \<lparr>cleaned = [], weekly = [], monthly = [], lanes = [],
          customer_master = build_customer_master raw_customers\<rparr>
   \<and> compute_risk_flags [] [] selected_week = []
   \<and> compute_lane_risks [] selected_week = []"
  by (simp add: transform_loads_def skeleton_join_def compute_risk_flags_def
        compute_lane_risks_def)

section \<open>Run-Rate Projector\<close>

lemma div_step:
  assumes "0 < (k::int)"
  shows "y div k = (y - 1) div k + (if y mod k = 0 then 1 else 0)"
proof (cases "y mod k = 0")
  case True
  have "y - 1 = k * (y div k - 1) + (k - 1)"
    using True by (simp add: algebra_simps) (metis mult_div_mod_eq add.right_neutral True)
  then have "(y - 1) div k = y div k - 1"
    using assms by (intro int_div_pos_eq[where r = "k - 1"]) auto
  with True show ?thesis by simp
next
  case False
  have m: "0 \<le> y mod k" "y mod k < k" using assms by auto
  have "y - 1 = k * (y div k) + (y mod k - 1)" by simp
  then have "(y - 1) div k = y div k"
    using m False by (intro int_div_pos_eq[where r = "y mod k - 1"]) auto
  with False show ?thesis by simp
qed

lemma mod_400_100: "(y::int) mod 400 = 0 \<Longrightarrow> y mod 100 = 0"
  using dvd_trans[of 100 400 y] by (simp add: mod_eq_0_iff_dvd)

lemma mod_100_4: "(y::int) mod 100 = 0 \<Longrightarrow> y mod 4 = 0"
  using dvd_trans[of 4 100 y] by (simp add: mod_eq_0_iff_dvd)

lemma leap_count:
  assumes "c \<Longrightarrow> b" "b \<Longrightarrow> a"
  shows "(if a then 1 else 0) - (if b then 1 else 0) + (if c then 1 else 0)
           = (if a \<and> (\<not> b \<or> c) then 1 else (0::int))"
  using assms by (cases a; cases b; cases c) simp_all

lemma days_before_year_Suc:
  "days_before_year (y + 1) = days_before_year y + 365 + (if is_leap y then 1 else 0)"
proof -
  have 1: "y div 4 = (y - 1) div 4 + (if y mod 4 = 0 then 1 else 0)" by (rule div_step) simp
  have 2: "y div 100 = (y - 1) div 100 + (if y mod 100 = 0 then 1 else 0)" by (rule div_step) simp
  have 3: "y div 400 = (y - 1) div 400 + (if y mod 400 = 0 then 1 else 0)" by (rule div_step) simp
  have "days_before_year (y + 1) = y * 365 + y div 4 - y div 100 + y div 400"
    by (simp add: days_before_year_def)
  also have "\<dots> = days_before_year y + 365
      + ((if y mod 4 = 0 then 1 else 0) - (if y mod 100 = 0 then 1 else 0)
         + (if y mod 400 = 0 then 1 else 0))"
    unfolding days_before_year_def 1 2 3 by (simp add: algebra_simps)
  also have "(if y mod 4 = 0 then 1 else 0) - (if y mod 100 = 0 then 1 else 0)
         + (if y mod 400 = 0 then 1 else 0) = (if is_leap y then 1 else (0::int))"
    unfolding is_leap_def by (rule leap_count[OF mod_400_100 mod_100_4])
  finally show ?thesis by simp
qed

lemma month_disj:
  "1 \<le> (m::int) \<Longrightarrow> m \<le> 12 \<Longrightarrow>
     m = 1 \<or> m = 2 \<or> m = 3 \<or> m = 4 \<or> m = 5 \<or> m = 6
     \<or> m = 7 \<or> m = 8 \<or> m = 9 \<or> m = 10 \<or> m = 11 \<or> m = 12"
  by arith

lemma month_cases:
  assumes "1 \<le> (m::int)" "m \<le> 12"
  obtains "m = 1" | "m = 2" | "m = 3" | "m = 4" | "m = 5" | "m = 6"
    | "m = 7" | "m = 8" | "m = 9" | "m = 10" | "m = 11" | "m = 12"
  using month_disj[OF assms] by blast

lemma days_before_month_Suc:
  assumes "1 \<le> m" "m < 12"
  shows "days_before_month y (m + 1) = days_before_month y m + month_length y m"
proof -
  from assms have "1 \<le> m" "m \<le> 12" by auto
  then show ?thesis using assms(2)
    by (cases m rule: month_cases) (simp_all add: days_before_month_def month_length_def)
qed

lemma month_length_pos:
  assumes "1 \<le> m" "m \<le> 12"
  shows "28 \<le> month_length y m \<and> month_length y m \<le> 31"
  using assms by (cases m rule: month_cases) (simp_all add: month_length_def)

lemma mk_date_first:
  "mk_date y m 1 = (if 1 \<le> y \<and> y \<le> 9999 \<and> 1 \<le> m \<and> m \<le> 12
                   then Inr \<lparr>year = y, month = m, day = 1\<rparr> else Inl ValueError)"
  using month_length_pos[of m y] by (auto simp: mk_date_def valid_date_def)

lemma days_in_month_eq:
  assumes "1 \<le> m" "m \<le> 12"
  shows "ymd2ord (if m = 12 then \<lparr>year = y + 1, month = 1, day = 1\<rparr>
                  else \<lparr>year = y, month = m + 1, day = 1\<rparr>)
         - ymd2ord \<lparr>year = y, month = m, day = 1\<rparr> = month_length y m"
proof (cases "m = 12")
  case True
  then show ?thesis
    by (simp add: ymd2ord_def days_before_year_Suc days_before_month_def month_length_def)
next
  case False
  with assms have "m < 12" by simp
  from days_before_month_Suc[OF assms(1) this, of y] False show ?thesis
    by (simp add: ymd2ord_def)
qed

lemma add_run_rate_eq:
  assumes "1 \<le> year today" "year today \<le> 9999" "1 \<le> month today" "month today \<le> 12"
      and "year today < 9999 \<or> month today < 12"
  shows "add_run_rate today monthly_df =
           Inr (map (run_rate_row (strftime_ym01 today) (day today)
                      (month_length (year today) (month today))) monthly_df)"
proof (cases "monthly_df = []")
  case True
  then show ?thesis by (simp add: add_run_rate_def)
next
  case False
  from days_in_month_eq[OF assms(3,4), of "year today"] assms False show ?thesis
    by (auto simp: add_run_rate_def mk_date_first Let_def)
qed

lemma add_run_rate_Inr:
  assumes "add_run_rate today monthly_df = Inr out"
  shows "out = map (run_rate_row (strftime_ym01 today) (day today)
                      (month_length (year today) (month today))) monthly_df"
proof (cases "monthly_df = []")
  case True
  with assms show ?thesis by (simp add: add_run_rate_def)
next
  case False
  show ?thesis
  proof (cases "1 \<le> year today \<and> year today \<le> 9999 \<and> 1 \<le> month today \<and> month today \<le> 12
                \<and> (year today < 9999 \<or> month today < 12)")
    case True
    with add_run_rate_eq[of today monthly_df] assms show ?thesis by simp
  next
    case F2: False
    with assms False show ?thesis
      by (auto simp: add_run_rate_def mk_date_first Let_def split: if_splits sum.splits)
  qed
qed

lemma py_int_nonneg: "0 \<le> x \<Longrightarrow> py_int x = \<lfloor>x\<rfloor>"
  by (simp add: py_int_def)

lemma run_rate_row_sel:
  "trend_row.truncate (run_rate_row cm d D r) = r"
  "is_current_month (run_rate_row cm d D r) = (period r = cm)"
  "run_rate_loads (run_rate_row cm d D r) =
     (if 0 < d \<and> period r = cm then py_int (of_nat (loads r) / of_int d * of_int D)
      else int (loads r))"
  "run_rate_revenue (run_rate_row cm d D r) =
     (if 0 < d \<and> period r = cm
      then of_int (round_half_even (period_row.revenue r / of_int d * of_int D))
      else period_row.revenue r)"
  by (simp_all add: run_rate_row_def Let_def trend_row.defs monthly_row.defs)


text \<open>
  Claim C5. In the table that the projector returns, a row of the current month with
  a positive load count has run-rate loads at least its load count, whenever the day of
  the month of \<open>today\<close> is less than the number of days of its month.
\<close>

theorem run_rate_monotone:
  assumes "add_run_rate today monthly_df = Inr out" "r \<in> set out"
      and "is_current_month r" "0 < loads r"
      and "day today < month_length (year today) (month today)"
  shows "int (loads r) \<le> run_rate_loads r"
proof -
  let ?D = "month_length (year today) (month today)"
  let ?d = "day today"
  from add_run_rate_Inr[OF assms(1)] assms(2)
  obtain r0 where r: "r = run_rate_row (strftime_ym01 today) ?d ?D r0"
    by auto
  show ?thesis
  proof (cases "0 < ?d")
    case True
    have "(of_nat (loads r0) :: rat) * of_int ?d \<le> of_nat (loads r0) * of_int ?D"
      using assms(5) by (intro mult_left_mono) auto
    then have "(of_nat (loads r0) :: rat) \<le> of_nat (loads r0) / of_int ?d * of_int ?D"
      using True by (simp add: field_simps)
    then have "int (loads r0) \<le> \<lfloor>(of_nat (loads r0) :: rat) / of_int ?d * of_int ?D\<rfloor>"
      by (simp add: le_floor_iff)
    moreover have "0 \<le> (of_nat (loads r0) :: rat) / of_int ?d * of_int ?D"
      using True assms(5) by simp
    ultimately show ?thesis using True
      by (simp add: r run_rate_row_def Let_def trend_row.defs monthly_row.defs py_int_nonneg)
  next
    case False
    then show ?thesis
      by (simp add: r run_rate_row_def Let_def trend_row.defs monthly_row.defs)
  qed
qed

lemma march_10_sel: "year march_10 = 2024" "month march_10 = 3" "day march_10 = 10"
  by (simp_all add: march_10_def)

lemma march_10_month: "strftime_ym01 march_10 = ''2024-03-01''"
  by code_simp

lemma march_length: "month_length 2024 3 = 31"
  by (simp add: month_length_def)

lemma march_row_sel:
  "period march_row = ''2024-03-01''" "loads march_row = 7" "period_row.revenue march_row = 1000"
  by (simp_all add: march_row_def)




lemma march_run_rate:
  "add_run_rate march_10 [march_row] = Inr [run_rate_row ''2024-03-01'' 10 31 march_row]"
  by (simp add: add_run_rate_eq march_10_sel march_10_month march_length)

theorem run_rate_monotone_witness:
  "add_run_rate march_10 [march_row] = Inr [run_rate_row ''2024-03-01'' 10 31 march_row]
   \<and> is_current_month (run_rate_row ''2024-03-01'' 10 31 march_row)
   \<and> 0 < loads (run_rate_row ''2024-03-01'' 10 31 march_row)
   \<and> day march_10 < month_length (year march_10) (month march_10)
   \<and> int (loads (run_rate_row ''2024-03-01'' 10 31 march_row))
       \<le> run_rate_loads (run_rate_row ''2024-03-01'' 10 31 march_row)"
  using run_rate_monotone [of march_10 "[march_row]" "[run_rate_row ''2024-03-01'' 10 31 march_row]"
          "run_rate_row ''2024-03-01'' 10 31 march_row"] march_run_rate
  by (simp add: march_10_sel march_length run_rate_row_sel march_row_sel
        run_rate_row_def Let_def trend_row.defs monthly_row.defs)

section \<open>Record Normalizer\<close>

lemma days_before_year_nonneg: "1 \<le> y \<Longrightarrow> 0 \<le> days_before_year y"
proof -
  assume y: "1 \<le> y"
  define a where "a = y - 1"
  have a: "0 \<le> a" using y by (simp add: a_def)
  have 1: "a div 100 \<le> a div 4" using a by (intro zdiv_mono2) auto
  have 2: "0 \<le> a div 400" using a by (simp add: pos_imp_zdiv_nonneg_iff)
  have 3: "0 \<le> a * 365" using a by simp
  have "days_before_year y = a * 365 + a div 4 - a div 100 + a div 400"
    by (simp add: days_before_year_def a_def)
  with 1 2 3 show ?thesis by linarith
qed

lemma days_before_month_nonneg:
  assumes "1 \<le> m" "m \<le> 12"
  shows "0 \<le> days_before_month y m"
  using assms by (cases m rule: month_cases) (simp_all add: days_before_month_def)

lemma ymd2ord_pos: "valid_date d \<Longrightarrow> 1 \<le> ymd2ord d"
  using days_before_year_nonneg[of "year d"] days_before_month_nonneg[of "month d" "year d"]
  by (simp add: valid_date_def ymd2ord_def)

lemma ymd2ord_first: "ymd2ord \<lparr>year = 1, month = 1, day = 1\<rparr> = 1"
  by (simp add: ymd2ord_def days_before_year_def days_before_month_def)

lemma prev_day_ok:
  assumes v: "valid_date d" and o: "1 < ymd2ord d"
  shows "\<exists>d'. prev_day d = Inr d' \<and> valid_date d' \<and> ymd2ord d' = ymd2ord d - 1"
proof -
  from v have r: "1 \<le> year d" "year d \<le> 9999" "1 \<le> month d" "month d \<le> 12"
    "1 \<le> day d" "day d \<le> month_length (year d) (month d)"
    by (simp_all add: valid_date_def)
  consider (a) "1 < day d" | (b) "day d = 1" "1 < month d"
    | (c) "day d = 1" "month d = 1" "1 < year d" | (e) "day d = 1" "month d = 1" "year d = 1"
    using r by linarith
  then show ?thesis
  proof cases
    case a
    with r show ?thesis
      by (simp add: prev_day_def valid_date_def ymd2ord_def)
  next
    case b
    let ?m = "month d - 1"
    have m: "1 \<le> ?m" "?m < 12" using b r by simp_all
    have s: "days_before_month (year d) (?m + 1)
               = days_before_month (year d) ?m + month_length (year d) ?m"
      by (rule days_before_month_Suc[OF m])
    have l: "28 \<le> month_length (year d) ?m" using month_length_pos[of ?m "year d"] m by simp
    from b r s l m show ?thesis
      by (simp add: prev_day_def valid_date_def ymd2ord_def)
  next
    case c
    have s: "days_before_year (year d - 1 + 1)
               = days_before_year (year d - 1) + 365 + (if is_leap (year d - 1) then 1 else 0)"
      by (rule days_before_year_Suc)
    have l: "month_length (year d - 1) 12 = 31" by (simp add: month_length_def)
    have bm: "days_before_month (year d - 1) 12 = 334 + (if is_leap (year d - 1) then 1 else 0)"
      "days_before_month (year d) 1 = 0"
      by (simp_all add: days_before_month_def)
    from c r s l bm show ?thesis
      by (simp add: prev_day_def valid_date_def ymd2ord_def)
  next
    case e
    then have "d = \<lparr>year = 1, month = 1, day = 1\<rparr>" by simp
    with o ymd2ord_first show ?thesis by simp
  qed
qed

lemma sub_days_ok:
  "valid_date d \<Longrightarrow> int k < ymd2ord d \<Longrightarrow>
     \<exists>d'. sub_days d k = Inr d' \<and> valid_date d' \<and> ymd2ord d' = ymd2ord d - int k"
proof (induction k arbitrary: d)
  case 0
  then show ?case by simp
next
  case (Suc k)
  from Suc.prems have "1 < ymd2ord d" by simp
  from prev_day_ok[OF Suc.prems(1) this] obtain p
    where p: "prev_day d = Inr p" "valid_date p" "ymd2ord p = ymd2ord d - 1" by blast
  from Suc.prems p have "int k < ymd2ord p" by simp
  from Suc.IH[OF p(2) this] p show ?case by auto
qed

lemma weekday_range: "0 \<le> weekday d \<and> weekday d \<le> 6"
  by (simp add: weekday_def)

lemma weekday_lt_ord: "1 \<le> ymd2ord d \<Longrightarrow> weekday d < ymd2ord d"
  unfolding weekday_def by presburger

lemma monday_ok:
  assumes "valid_date dt"
  shows "\<exists>monday. sub_days dt (nat (weekday dt)) = Inr monday \<and> valid_date monday
           \<and> weekday monday = 0 \<and> ymd2ord monday = ymd2ord dt - weekday dt"
proof -
  have w: "0 \<le> weekday dt" using weekday_range by simp
  have "int (nat (weekday dt)) < ymd2ord dt"
    using w weekday_lt_ord[OF ymd2ord_pos[OF assms]] by simp
  from sub_days_ok[OF assms this] obtain m
    where m: "sub_days dt (nat (weekday dt)) = Inr m" "valid_date m"
      "ymd2ord m = ymd2ord dt - int (nat (weekday dt))" by blast
  have "ymd2ord m = ymd2ord dt - weekday dt" using m(3) w by simp
  moreover from this have "weekday m = 0"
    unfolding weekday_def by presburger
  ultimately show ?thesis using m by blast
qed










lemma mk_date_Inr: "mk_date y m d = Inr dt \<Longrightarrow> valid_date dt"
  by (auto simp: mk_date_def split: if_splits)

lemma mk_date_Inl: "mk_date y m d = Inl e \<Longrightarrow> e = ValueError"
  by (auto simp: mk_date_def split: if_splits)

lemma strptime_Inr: "strptime_ymd s = Inr dt \<Longrightarrow> valid_date dt"
  by (auto simp: strptime_ymd_def dest: mk_date_Inr split: list.splits if_splits option.splits)

lemma strptime_Inl: "strptime_ymd s = Inl e \<Longrightarrow> e = ValueError"
  by (auto simp: strptime_ymd_def dest: mk_date_Inl split: list.splits if_splits option.splits)

lemma flatten_load_skip:
  assumes "completed_at_of load = [] \<or> (\<exists>e. strptime_ymd (take 10 (completed_at_of load)) = Inl e)"
  shows "flatten_load load = Inr None"
proof (cases "completed_at_of load = []")
  case True
  then show ?thesis by (simp add: flatten_load_def)
next
  case False
  with assms obtain e where e: "strptime_ymd (take 10 (completed_at_of load)) = Inl e" by blast
  from strptime_Inl[OF e] e False show ?thesis by (simp add: flatten_load_def)
qed

lemma flatten_load_emit:
  assumes "completed_at_of load \<noteq> []"
      and "strptime_ymd (take 10 (completed_at_of load)) = Inr dt"
  shows "\<exists>monday r. flatten_load load = Inr (Some r)
           \<and> sub_days dt (nat (weekday dt)) = Inr monday
           \<and> completed_date r = take 10 (completed_at_of load)
           \<and> nload.week_start r = strftime_ymd monday
           \<and> month_start r = strftime_ym01 dt
           \<and> on_time_pickup r = 1 \<and> on_time_delivery r = 1"
proof -
  from monday_ok[OF strptime_Inr[OF assms(2)]] obtain monday
    where m: "sub_days dt (nat (weekday dt)) = Inr monday" by blast
  show ?thesis
    using assms m by (simp add: flatten_load_def Let_def split: prod.splits)
qed

lemma flatten_load_Some:
  assumes "flatten_load load = Inr (Some r)"
  shows "completed_at_of load \<noteq> [] \<and> completed_date r = take 10 (completed_at_of load)
         \<and> on_time_pickup r = 1 \<and> on_time_delivery r = 1
         \<and> (\<exists>dt monday. strptime_ymd (completed_date r) = Inr dt
              \<and> sub_days dt (nat (weekday dt)) = Inr monday
              \<and> nload.week_start r = strftime_ymd monday \<and> month_start r = strftime_ym01 dt)"
proof -
  have ne: "completed_at_of load \<noteq> []"
    using assms flatten_load_skip[of load] by auto
  obtain dt where dt: "strptime_ymd (take 10 (completed_at_of load)) = Inr dt"
    using assms flatten_load_skip[of load] by (cases "strptime_ymd (take 10 (completed_at_of load))") auto
  from flatten_load_emit[OF ne dt] assms show ?thesis
    using ne dt by auto
qed



lemma flatten_loads_set:
  "flatten_loads raw_loads = Inr df \<Longrightarrow> r \<in> set df \<Longrightarrow>
     \<exists>l \<in> set raw_loads. flatten_load l = Inr (Some r)"
proof (induction raw_loads arbitrary: df)
  case Nil
  then show ?case by simp
next
  case (Cons l ls)
  then show ?case
    by (auto split: sum.splits option.splits)
qed






section \<open>Period Aggregator\<close>

lemma filter_map_distinct_key:
  assumes "distinct ks" "\<And>k. f (mk k) = k"
  shows "filter (\<lambda>a. f a = k) (map mk ks) = (if k \<in> set ks then [mk k] else [])"
  using assms(1)
proof (induction ks)
  case Nil
  then show ?case by simp
next
  case (Cons x xs)
  then show ?case by (auto simp: assms(2))
qed

lemma groupby_agg_lookup:
  "filter (\<lambda>a. g_customer_name a = n \<and> g_period a = p) (groupby_agg pc df) =
     (if (n, p) \<in> group_key pc ` set df
      then [\<lparr>g_customer_name = n, g_period = p,
             g_loads = length (entity_group pc df n p),
             g_revenue = sum_list (map pricing_total (entity_group pc df n p)),
             g_avg_revenue = mean (map pricing_total (entity_group pc df n p)),
             g_otp = mean (map (\<lambda>l. of_int (on_time_pickup l)) (entity_group pc df n p)),
             g_otd = mean (map (\<lambda>l. of_int (on_time_delivery l)) (entity_group pc df n p)),
             g_uncontrollable_events =
               length (filter (\<lambda>l. exception_label l = ''Uncontrollable Event'')
                         (entity_group pc df n p))\<rparr>]
      else [])"
proof -
  let ?mk = "\<lambda>k. (let g = filter (\<lambda>l. group_key pc l = k) df in
             \<lparr>g_customer_name = fst k,
              g_period = snd k,
              g_loads = length (map load_id g),
              g_revenue = sum_list (map pricing_total g),
              g_avg_revenue = mean (map pricing_total g),
              g_otp = mean (map (\<lambda>l. of_int (on_time_pickup l)) g),
              g_otd = mean (map (\<lambda>l. of_int (on_time_delivery l)) g),
              g_uncontrollable_events =
                length (filter (\<lambda>l. exception_label l = ''Uncontrollable Event'') g)\<rparr>)"
  let ?ks = "sort (remdups (map (group_key pc) df))"
  have d: "distinct ?ks" by simp
  have f: "(\<lambda>a. (g_customer_name a, g_period a)) (?mk k) = k" for k
    by (simp add: Let_def)
  have "filter (\<lambda>a. (g_customer_name a, g_period a) = (n, p)) (map ?mk ?ks)
          = (if (n, p) \<in> set ?ks then [?mk (n, p)] else [])"
    using filter_map_distinct_key[of ?ks "\<lambda>a. (g_customer_name a, g_period a)" ?mk "(n, p)"] d f
    by blast
  moreover have "filter (\<lambda>l. group_key pc l = (n, p)) df = entity_group pc df n p"
    by (simp add: entity_group_def group_key_def)
  ultimately show ?thesis
    by (simp add: groupby_agg_def Let_def)
qed

lemma group_key_mem:
  "((n, p) \<in> group_key pc ` set df) = (entity_group pc df n p \<noteq> [])"
  by (auto simp: entity_group_def group_key_def filter_empty_conv)

lemma merge_fill:
  "map fillna (merge_left [\<lparr>skeleton_row.customer_name = name c, customer_id = cid c,
                             customer_tier = tier c, period = p\<rparr>] (groupby_agg pc df))
     = [always_visible_row pc df c p]"
  by (simp add: merge_left_def groupby_agg_lookup group_key_mem fillna_def always_visible_row_def
        Let_def skeleton_row.defs period_row.defs)

lemma merge_left_append:
  "merge_left (xs @ ys) agg = merge_left xs agg @ merge_left ys agg"
  by (simp add: merge_left_def)

lemma merge_left_Cons:
  "merge_left (x # xs) agg = merge_left [x] agg @ merge_left xs agg"
  by (simp add: merge_left_def)

lemma merge_fill_entities:
  "map fillna (merge_left (map (\<lambda>cust. \<lparr>skeleton_row.customer_name = name cust,
        customer_id = cid cust, customer_tier = tier cust, period = p\<rparr>) cm) (groupby_agg pc df))
     = map (\<lambda>c. always_visible_row pc df c p) cm"
proof (induction cm)
  case Nil
  show ?case by (simp add: merge_left_def)
next
  case (Cons c cm)
  have "map fillna (merge_left (map (\<lambda>cust. \<lparr>skeleton_row.customer_name = name cust,
        customer_id = cid cust, customer_tier = tier cust, period = p\<rparr>) (c # cm))
          (groupby_agg pc df))
       = map fillna (merge_left [\<lparr>skeleton_row.customer_name = name c, customer_id = cid c,
                             customer_tier = tier c, period = p\<rparr>] (groupby_agg pc df))
         @ map fillna (merge_left (map (\<lambda>cust. \<lparr>skeleton_row.customer_name = name cust,
        customer_id = cid cust, customer_tier = tier cust, period = p\<rparr>) cm) (groupby_agg pc df))"
    by (simp add: merge_left_def)
  then show ?case unfolding merge_fill Cons.IH by simp
qed

lemma merge_fill_periods:
  "map fillna (merge_left (skeleton_rows cm ps) (groupby_agg pc df))
     = concat (map (\<lambda>p. map (\<lambda>c. always_visible_row pc df c p) cm) ps)"
proof (induction ps)
  case Nil
  show ?case by (simp add: skeleton_rows_def merge_left_def)
next
  case (Cons p ps)
  have "skeleton_rows cm (p # ps) =
          map (\<lambda>cust. \<lparr>skeleton_row.customer_name = name cust,
        customer_id = cid cust, customer_tier = tier cust, period = p\<rparr>) cm @ skeleton_rows cm ps"
    by (simp add: skeleton_rows_def)
  then show ?case
    by (simp add: merge_left_append merge_fill_entities Cons.IH)
qed

lemma skeleton_join_eq:
  "skeleton_join df cm pc =
     concat (map (\<lambda>p. map (\<lambda>c. always_visible_row pc df c p) cm)
               (sort (remdups (map (period_of pc) df))))"
proof (cases "df = [] \<or> cm = []")
  case True
  then show ?thesis by (auto simp: skeleton_join_def)
next
  case False
  then show ?thesis by (simp add: skeleton_join_def Let_def merge_fill_periods)
qed

lemma avr_sel:
  "skeleton_row.customer_name (always_visible_row pc df c p) = name c"
  "customer_id (always_visible_row pc df c p) = cid c"
  "customer_tier (always_visible_row pc df c p) = tier c"
  "period (always_visible_row pc df c p) = p"
  "loads (always_visible_row pc df c p) = length (entity_group pc df (name c) p)"
  "period_row.revenue (always_visible_row pc df c p)
     = sum_list (map pricing_total (entity_group pc df (name c) p))"
  "uncontrollable_events (always_visible_row pc df c p)
     = length (filter (\<lambda>l. exception_label l = ''Uncontrollable Event'')
                 (entity_group pc df (name c) p))"
  "otp (always_visible_row pc df c p)
     = (if entity_group pc df (name c) p = [] then None
        else Some (mean (map (\<lambda>l. of_int (on_time_pickup l)) (entity_group pc df (name c) p))))"
  "period_row.otd (always_visible_row pc df c p)
     = (if entity_group pc df (name c) p = [] then None
        else Some (mean (map (\<lambda>l. of_int (on_time_delivery l)) (entity_group pc df (name c) p))))"
  by (simp_all add: always_visible_row_def Let_def)

lemma skeleton_join_product:
  "skeleton_join df cm pc =
     map (\<lambda>(p, c). always_visible_row pc df c p)
       (List.product (sort (remdups (map (period_of pc) df))) cm)"
proof -
  have "concat (map (\<lambda>p. map (\<lambda>c. always_visible_row pc df c p) cm) ps)
          = map (\<lambda>(p, c). always_visible_row pc df c p) (List.product ps cm)" for ps
    by (induction ps) (simp_all add: comp_def)
  then show ?thesis by (simp add: skeleton_join_eq)
qed

lemma distinct_filter_eq_one:
  "distinct xs \<Longrightarrow> x \<in> set xs \<Longrightarrow> length (filter (\<lambda>y. y = x) xs) = 1"
  by (induction xs) (auto simp: filter_empty_conv)

lemma distinct_map_filter_one:
  "distinct (map f xs) \<Longrightarrow> x \<in> set xs \<Longrightarrow> length (filter (\<lambda>y. f y = f x) xs) = 1"
proof (induction xs)
  case Nil
  then show ?case by simp
next
  case (Cons a xs)
  show ?case
  proof (cases "a = x")
    case True
    have "f x \<notin> f ` set xs" using Cons.prems(1) True by simp
    then have "\<forall>y \<in> set xs. f y \<noteq> f x" by (metis imageI)
    then have "filter (\<lambda>y. f y = f x) xs = []" by (simp add: filter_empty_conv)
    with True show ?thesis by simp
  next
    case False
    with Cons.prems have x: "x \<in> set xs" and d: "distinct (map f xs)" and n: "f a \<noteq> f x"
      by auto
    from Cons.IH[OF d x] n show ?thesis by simp
  qed
qed

lemma count_rows:
  "length (filter (\<lambda>r. skeleton_row.customer_name r = n \<and> period r = p)
             (concat (map (\<lambda>q. map (\<lambda>c. always_visible_row pc df c q) cm) ps)))
     = length (filter (\<lambda>q. q = p) ps) * length (filter (\<lambda>c. name c = n) cm)"
proof (induction ps)
  case Nil
  show ?case by simp
next
  case (Cons q ps)
  have "length (filter (\<lambda>r. skeleton_row.customer_name r = n \<and> period r = p)
                  (map (\<lambda>c. always_visible_row pc df c q) cm))
          = (if q = p then length (filter (\<lambda>c. name c = n) cm) else 0)"
    by (simp add: filter_map comp_def avr_sel)
  with Cons show ?case by simp
qed

text \<open>
  Claim C1. The table of the Period Aggregator is the image of the cross product of
  the distinct periods of the loads, in ascending order, with the master list: one row
  for every pair of a period and an entry of the master list, that row being the
  always-visible row of the pair. The always-visible row of an entity with no loads in
  the period has load count, revenue sum and uncontrollable-event count 0 and undefined
  mean on-time rates. When the names of the master list are distinct, exactly one row
  carries the name of a given entity and a given period of the loads.
\<close>

theorem skeleton_join_always_visible:
  "skeleton_join df cm pc =
     map (\<lambda>(p, c). always_visible_row pc df c p)
       (List.product (sort (remdups (map (period_of pc) df))) cm)
   \<and> distinct (sort (remdups (map (period_of pc) df)))
   \<and> set (sort (remdups (map (period_of pc) df))) = period_of pc ` set df
   \<and> (entity_group pc df (name c) p = [] \<longrightarrow>
        loads (always_visible_row pc df c p) = 0
        \<and> period_row.revenue (always_visible_row pc df c p) = 0
        \<and> uncontrollable_events (always_visible_row pc df c p) = 0
        \<and> otp (always_visible_row pc df c p) = None
        \<and> period_row.otd (always_visible_row pc df c p) = None)
   \<and> (distinct (map name cm) \<and> c \<in> set cm \<and> l \<in> set df \<longrightarrow>
        length (filter (\<lambda>r. skeleton_row.customer_name r = name c \<and> period r = period_of pc l)
                  (skeleton_join df cm pc)) = 1)"
proof (intro conjI impI)
  show "skeleton_join df cm pc =
     map (\<lambda>(p, c). always_visible_row pc df c p)
       (List.product (sort (remdups (map (period_of pc) df))) cm)"
    by (rule skeleton_join_product)
  show "distinct (sort (remdups (map (period_of pc) df)))" by simp
  show "set (sort (remdups (map (period_of pc) df))) = period_of pc ` set df" by simp
next
  assume e: "entity_group pc df (name c) p = []"
  show "loads (always_visible_row pc df c p) = 0" by (simp add: avr_sel e)
  show "period_row.revenue (always_visible_row pc df c p) = 0" by (simp add: avr_sel e)
  show "uncontrollable_events (always_visible_row pc df c p) = 0" by (simp add: avr_sel e)
  show "otp (always_visible_row pc df c p) = None" by (simp add: avr_sel e)
  show "period_row.otd (always_visible_row pc df c p) = None" by (simp add: avr_sel e)
next
  assume a: "distinct (map name cm) \<and> c \<in> set cm \<and> l \<in> set df"
  let ?ps = "sort (remdups (map (period_of pc) df))"
  have p: "length (filter (\<lambda>q. q = period_of pc l) ?ps) = 1"
    using a by (intro distinct_filter_eq_one) auto
  have n: "length (filter (\<lambda>x. name x = name c) cm) = 1"
    using a by (intro distinct_map_filter_one) auto
  show "length (filter (\<lambda>r. skeleton_row.customer_name r = name c \<and> period r = period_of pc l)
                  (skeleton_join df cm pc)) = 1"
    unfolding skeleton_join_eq count_rows p n by simp
qed

lemma bolt_hyps:
  "entity_group Week_start three_loads (name bolt) ''2024-03-11'' = []
   \<and> distinct (map name master2) \<and> bolt \<in> set master2
   \<and> hd three_loads \<in> set three_loads
   \<and> period_of Week_start (hd three_loads) = ''2024-03-11''"
  by code_simp

theorem skeleton_join_always_visible_witness:
  "entity_group Week_start three_loads (name bolt) ''2024-03-11'' = []
   \<and> distinct (map name master2) \<and> bolt \<in> set master2
   \<and> hd three_loads \<in> set three_loads
   \<and> loads (always_visible_row Week_start three_loads bolt ''2024-03-11'') = 0
   \<and> period_row.revenue (always_visible_row Week_start three_loads bolt ''2024-03-11'') = 0
   \<and> period_row.otd (always_visible_row Week_start three_loads bolt ''2024-03-11'') = None
   \<and> length (filter (\<lambda>r. skeleton_row.customer_name r = name bolt \<and> period r = ''2024-03-11'')
               (skeleton_join three_loads master2 Week_start)) = 1"
proof -
  note t = skeleton_join_always_visible [of three_loads master2 Week_start bolt "''2024-03-11''" "hd three_loads"]
  have p: "period_of Week_start (hd three_loads) = ''2024-03-11''" using bolt_hyps by blast
  from t bolt_hyps
  have "length (filter (\<lambda>r. skeleton_row.customer_name r = name bolt
                  \<and> period r = period_of Week_start (hd three_loads))
               (skeleton_join three_loads master2 Week_start)) = 1"
    by blast
  then have "length (filter (\<lambda>r. skeleton_row.customer_name r = name bolt
                  \<and> period r = ''2024-03-11'')
               (skeleton_join three_loads master2 Week_start)) = 1"
    unfolding p .
  with t bolt_hyps show ?thesis by blast
qed

lemma mean_ones:
  assumes "xs \<noteq> []" "\<forall>x \<in> set xs. x = 1"
  shows "mean xs = 1"
proof -
  have "sum_list xs = of_nat (length xs)" using assms(2) by (induction xs) auto
  then show ?thesis using assms(1) by (simp add: mean_def)
qed

lemma skeleton_join_rows:
  "r \<in> set (skeleton_join df cm pc) \<Longrightarrow>
     \<exists>c \<in> set cm. \<exists>p. r = always_visible_row pc df c p"
  by (auto simp: skeleton_join_eq)

lemma skeleton_join_otd:
  assumes "r \<in> set (skeleton_join df cm pc)" "\<forall>l \<in> set df. on_time_delivery l = 1"
  shows "period_row.otd r = None \<or> period_row.otd r = Some 1"
proof -
  from skeleton_join_rows[OF assms(1)] obtain c p where r: "r = always_visible_row pc df c p"
    by blast
  show ?thesis
  proof (cases "entity_group pc df (name c) p = []")
    case True
    then show ?thesis by (simp add: r avr_sel)
  next
    case False
    have "\<forall>x \<in> set (map (\<lambda>l. rat_of_int (on_time_delivery l)) (entity_group pc df (name c) p)). x = 1"
      using assms(2) by (auto simp: entity_group_def)
    with False have "mean (map (\<lambda>l. rat_of_int (on_time_delivery l)) (entity_group pc df (name c) p)) = 1"
      by (intro mean_ones) auto
    with False show ?thesis by (simp add: r avr_sel)
  qed
qed

lemma add_trend_rows:
  "r \<in> set (add_trend seen rs) \<Longrightarrow> \<exists>r0 \<in> set rs. \<exists>h. r = trend_of h r0"
  by (induction rs arbitrary: seen) auto

lemma add_wow_rows:
  "r \<in> set (add_wow_and_flags df) \<Longrightarrow> \<exists>r0 \<in> set df. \<exists>h. r = trend_of h r0"
  using add_trend_rows[of r "[]" "sort_key (\<lambda>r. (skeleton_row.customer_name r, period r)) df"]
  by (simp add: add_wow_and_flags_def)

lemma trend_of_sel:
  "period_row.otd (trend_of h r) = period_row.otd r"
  "service_risk (trend_of h r) = service_risk_of (period_row.otd r)"
  "loads (trend_of h r) = loads r"
  "period (trend_of h r) = period r"
  "skeleton_row.customer_name (trend_of h r) = skeleton_row.customer_name r"
  "prev_loads (trend_of h r) = shift1 h"
  "change_pct (trend_of h r) = change_pct_of (loads r) (shift1 h)"
  "change_label (trend_of h r) = change_label_of (shift1 h) (change_pct_of (loads r) (shift1 h))"
  "trailing_4_avg (trend_of h r) = rolling4_mean h"
  by (simp_all add: trend_of_def Let_def period_row.defs trend_row.defs)

lemma run_rate_row_otd:
  "period_row.otd (run_rate_row cm d D r) = period_row.otd r"
  "service_risk (run_rate_row cm d D r) = service_risk r"
  by (simp_all add: run_rate_row_def Let_def trend_row.defs monthly_row.defs)

lemma service_risk_ok:
  "x = None \<or> x = Some 1 \<Longrightarrow>
     service_risk_of x \<noteq> ''AT RISK'' \<and> (service_risk_of x = ''OK'' \<or> service_risk_of x = ''N/A'')"
  by (auto simp: service_risk_of_def)

lemma row_flags_no_poor:
  "period_row.otd row = None \<or> period_row.otd row = Some 1 \<Longrightarrow>
     ''HIGH REVENUE + POOR SERVICE'' \<notin> set (row_flags trailing total_revenue row)"
  by (auto simp: row_flags_def Let_def)

lemma sort_remdups_cong:
  "set xs = set ys \<Longrightarrow> sort (remdups xs) = sort (remdups ys)"
  by (metis sorted_list_of_set_sort_remdups)

lemma entity_group_master:
  assumes "n \<in> name ` set cm"
  shows "entity_group pc df n p
           = entity_group pc (filter (\<lambda>l. nload.customer_name l \<in> name ` set cm) df) n p"
  using assms by (auto simp: entity_group_def intro: filter_cong)

lemma avr_master:
  assumes "c \<in> set cm"
  shows "always_visible_row pc df c p
           = always_visible_row pc (filter (\<lambda>l. nload.customer_name l \<in> name ` set cm) df) c p"
proof -
  have "name c \<in> name ` set cm" using assms by simp
  from entity_group_master[OF this] show ?thesis
    by (simp add: always_visible_row_def)
qed

text \<open>
  Claim C9. Every row of the table of the Period Aggregator (weekly or monthly) carries
  the name of an entry of the master list, and its load count and revenue are those of
  the loads that carry exactly that name in that period. Loads whose name is not in the
  master list enter no row: two load sets that agree on the loads named in the master
  list, and on the set of periods present, give the same table.
\<close>

theorem unmatched_loads_vanish:
  "(\<forall>r \<in> set (skeleton_join df cm pc).
      skeleton_row.customer_name r \<in> name ` set cm
      \<and> loads r = length (entity_group pc df (skeleton_row.customer_name r) (period r))
      \<and> period_row.revenue r
          = sum_list (map pricing_total (entity_group pc df (skeleton_row.customer_name r) (period r))))
   \<and> (filter (\<lambda>l. nload.customer_name l \<in> name ` set cm) df
          = filter (\<lambda>l. nload.customer_name l \<in> name ` set cm) df'
        \<and> period_of pc ` set df = period_of pc ` set df'
      \<longrightarrow> skeleton_join df cm pc = skeleton_join df' cm pc)"
proof (intro conjI ballI impI)
  fix r assume "r \<in> set (skeleton_join df cm pc)"
  from skeleton_join_rows[OF this] obtain c p where c: "c \<in> set cm"
    and r: "r = always_visible_row pc df c p" by blast
  show "skeleton_row.customer_name r \<in> name ` set cm" using c by (simp add: r avr_sel)
  show "loads r = length (entity_group pc df (skeleton_row.customer_name r) (period r))"
    by (simp add: r avr_sel)
  show "period_row.revenue r
          = sum_list (map pricing_total (entity_group pc df (skeleton_row.customer_name r) (period r)))"
    by (simp add: r avr_sel)
next
  assume a: "filter (\<lambda>l. nload.customer_name l \<in> name ` set cm) df
          = filter (\<lambda>l. nload.customer_name l \<in> name ` set cm) df'
        \<and> period_of pc ` set df = period_of pc ` set df'"
  then have ps: "sort (remdups (map (period_of pc) df)) = sort (remdups (map (period_of pc) df'))"
    by (intro sort_remdups_cong) simp
  have rows: "map (\<lambda>c. always_visible_row pc df c p) cm = map (\<lambda>c. always_visible_row pc df' c p) cm"
    for p
  proof (rule map_cong[OF refl])
    fix c assume c: "c \<in> set cm"
    show "always_visible_row pc df c p = always_visible_row pc df' c p"
      using avr_master[OF c, of pc df p] avr_master[OF c, of pc df' p] a by simp
  qed
  show "skeleton_join df cm pc = skeleton_join df' cm pc"
    unfolding skeleton_join_eq ps rows ..
qed

lemma ghost_hyps:
  "filter (\<lambda>l. nload.customer_name l \<in> name ` set master2) three_loads
     = filter (\<lambda>l. nload.customer_name l \<in> name ` set master2) (take 2 three_loads)
   \<and> period_of Week_start ` set three_loads = period_of Week_start ` set (take 2 three_loads)
   \<and> length three_loads = 3"
  by code_simp

lemma ghost_rows:
  "map (\<lambda>r. (skeleton_row.customer_name r, period r, loads r, period_row.revenue r))
     (skeleton_join three_loads master2 Week_start)
   = [(''Acme'', ''2024-03-11'', 1, 500), (''Bolt'', ''2024-03-11'', 0, 0),
      (''Acme'', ''2024-03-18'', 1, 700), (''Bolt'', ''2024-03-18'', 0, 0)]"
  by code_simp

theorem unmatched_loads_vanish_witness:
  "filter (\<lambda>l. nload.customer_name l \<in> name ` set master2) three_loads
     = filter (\<lambda>l. nload.customer_name l \<in> name ` set master2) (take 2 three_loads)
   \<and> period_of Week_start ` set three_loads = period_of Week_start ` set (take 2 three_loads)
   \<and> length three_loads = 3
   \<and> skeleton_join three_loads master2 Week_start
       = skeleton_join (take 2 three_loads) master2 Week_start
   \<and> map (\<lambda>r. (skeleton_row.customer_name r, period r, loads r, period_row.revenue r))
       (skeleton_join three_loads master2 Week_start)
       = [(''Acme'', ''2024-03-11'', 1, 500), (''Bolt'', ''2024-03-11'', 0, 0),
          (''Acme'', ''2024-03-18'', 1, 700), (''Bolt'', ''2024-03-18'', 0, 0)]"
  using unmatched_loads_vanish [of three_loads master2 Week_start "take 2 three_loads"]
    ghost_hyps ghost_rows
  by blast

section \<open>On-time flags\<close>

lemma no_poor_text:
  "\<not> contains ''HIGH REVENUE + POOR SERVICE''
       (join '' | ''
          ((if a then [''STALE ACCOUNT (0 LOADS)''] else [])
           @ (if c then [''HIGH REVENUE + DECLINING VOLUME''] else [])
           @ (if d then [''SHARP WOW DROP''] else [])
           @ (if e then [''BELOW TRAILING AVERAGE''] else [])))"
  by (cases a; cases c; cases d; cases e; simp)

lemma row_flags_no_poor_text:
  assumes "period_row.otd row = None \<or> period_row.otd row = Some 1"
  shows "\<not> contains ''HIGH REVENUE + POOR SERVICE'' (join '' | '' (row_flags trailing total_revenue row))"
proof -
  have n: "\<not> (5 \<le> revenue_share_of total_revenue row \<and> period_row.otd row \<noteq> None
              \<and> the (period_row.otd row) < 9 / 10)"
    using assms by auto
  have "row_flags trailing total_revenue row =
      (if loads row = 0 \<and> 0 < trailing_loads_by_cust trailing (skeleton_row.customer_name row)
       then [''STALE ACCOUNT (0 LOADS)''] else [])
      @ (if 5 \<le> revenue_share_of total_revenue row
            \<and> (case change_pct row of Some c \<Rightarrow> c | None \<Rightarrow> 0) < - 20
         then [''HIGH REVENUE + DECLINING VOLUME''] else [])
      @ (if (case change_pct row of Some c \<Rightarrow> c | None \<Rightarrow> 0) < - 30
         then [''SHARP WOW DROP''] else [])
      @ (if trailing_4_avg row \<noteq> None \<and> 0 < the (trailing_4_avg row)
            \<and> of_nat (loads row) < the (trailing_4_avg row) * (7 / 10)
         then [''BELOW TRAILING AVERAGE''] else [])"
    unfolding row_flags_def Let_def if_not_P[OF n] by simp
  then show ?thesis by (simp only: no_poor_text not_False_eq_True)
qed

lemma compute_risk_rows:
  "x \<in> set (compute_risk_flags weekly_customer completed_df selected_week) \<Longrightarrow>
     \<exists>row \<in> set weekly_customer. \<exists>trailing total_revenue.
        period row = selected_week
        \<and> x = risk_of row (row_flags trailing total_revenue row)"
  by (auto simp: compute_risk_flags_def Let_def split: if_splits)

lemma risk_of_flag: "risk_flag (risk_of row flags) = join '' | '' flags"
  by (simp add: risk_of_def)

lemma transform_loads_Inr:
  assumes "transform_loads today raw_loads raw_customers = Inr t"
  shows "flatten_loads raw_loads = Inr (cleaned t)
     \<and> weekly t =
         (if skeleton_join (cleaned t) (build_customer_master raw_customers) Week_start \<noteq> []
          then add_wow_and_flags
                 (skeleton_join (cleaned t) (build_customer_master raw_customers) Week_start)
          else [])
     \<and> (if skeleton_join (cleaned t) (build_customer_master raw_customers) Month_start \<noteq> []
          then add_run_rate today (add_wow_and_flags
                 (skeleton_join (cleaned t) (build_customer_master raw_customers) Month_start))
          else Inr []) = Inr (monthly t)"
  using assms
  by (auto simp: transform_loads_def Let_def split: sum.splits if_splits)

lemma cleaned_on_time:
  assumes "flatten_loads raw_loads = Inr df" "l \<in> set df"
  shows "on_time_pickup l = 1 \<and> on_time_delivery l = 1"
proof -
  from flatten_loads_set[OF assms] obtain raw where "flatten_load raw = Inr (Some l)" by blast
  from flatten_load_Some[OF this] show ?thesis by blast
qed

lemma trend_rows_otd:
  assumes "r \<in> set (add_wow_and_flags (skeleton_join df cm pc))"
      and "\<forall>l \<in> set df. on_time_delivery l = 1"
  shows "(period_row.otd r = None \<or> period_row.otd r = Some 1)
         \<and> service_risk r = service_risk_of (period_row.otd r)"
proof -
  from add_wow_rows[OF assms(1)] obtain r0 h where r0: "r0 \<in> set (skeleton_join df cm pc)"
    and r: "r = trend_of h r0" by blast
  from skeleton_join_otd[OF r0 assms(2)] show ?thesis by (simp add: r trend_of_sel)
qed

text \<open>
  Claim C10. In the tables that the pipeline derives from raw loads, every normalized
  load has both on-time flags equal to 1; every weekly and monthly row has a mean
  on-time-delivery rate that is undefined or exactly 1, and a service-risk category
  that is \<^verbatim>\<open>"OK"\<close> or \<^verbatim>\<open>"N/A"\<close>, never \<^verbatim>\<open>"AT RISK"\<close>; the list of flags of a weekly
  row never holds \<^verbatim>\<open>"HIGH REVENUE + POOR SERVICE"\<close>, and the flag text of no row of the
  risk table contains it, for every target week.
\<close>

theorem on_time_always_one:
  assumes "transform_loads today raw_loads raw_customers = Inr t"
  shows "(\<forall>l \<in> set (cleaned t). on_time_pickup l = 1 \<and> on_time_delivery l = 1)
     \<and> (\<forall>r \<in> set (weekly t).
           (period_row.otd r = None \<or> period_row.otd r = Some 1)
           \<and> service_risk r \<noteq> ''AT RISK''
           \<and> (service_risk r = ''OK'' \<or> service_risk r = ''N/A'')
           \<and> ''HIGH REVENUE + POOR SERVICE'' \<notin> set (row_flags trailing total_revenue r))
     \<and> (\<forall>r \<in> set (monthly t).
           (period_row.otd r = None \<or> period_row.otd r = Some 1)
           \<and> service_risk r \<noteq> ''AT RISK''
           \<and> (service_risk r = ''OK'' \<or> service_risk r = ''N/A''))
     \<and> (\<forall>x \<in> set (compute_risk_flags (weekly t) (cleaned t) selected_week).
           \<not> contains ''HIGH REVENUE + POOR SERVICE'' (risk_flag x))"
proof -
  let ?m = "build_customer_master raw_customers"
  note d = transform_loads_Inr[OF assms]
  have fl: "flatten_loads raw_loads = Inr (cleaned t)" using d by blast
  have c: "\<forall>l \<in> set (cleaned t). on_time_pickup l = 1 \<and> on_time_delivery l = 1"
    using cleaned_on_time[OF fl] by blast
  then have c': "\<forall>l \<in> set (cleaned t). on_time_delivery l = 1" by blast
  have w: "(period_row.otd r = None \<or> period_row.otd r = Some 1)
           \<and> service_risk r = service_risk_of (period_row.otd r)"
    if "r \<in> set (weekly t)" for r
  proof -
    from d that have "r \<in> set (add_wow_and_flags (skeleton_join (cleaned t) ?m Week_start))"
      by (auto split: if_splits)
    from trend_rows_otd[OF this c'] show ?thesis .
  qed
  have m: "(period_row.otd r = None \<or> period_row.otd r = Some 1)
           \<and> service_risk r = service_risk_of (period_row.otd r)"
    if "r \<in> set (monthly t)" for r
  proof -
    from d have e: "(if skeleton_join (cleaned t) ?m Month_start \<noteq> []
          then add_run_rate today (add_wow_and_flags (skeleton_join (cleaned t) ?m Month_start))
          else Inr []) = Inr (monthly t)" by blast
    have ne: "skeleton_join (cleaned t) ?m Month_start \<noteq> []"
      using e that by (auto split: if_splits)
    with e have "add_run_rate today (add_wow_and_flags (skeleton_join (cleaned t) ?m Month_start))
                   = Inr (monthly t)" by simp
    from add_run_rate_Inr[OF this] that obtain r1
      where r1: "r1 \<in> set (add_wow_and_flags (skeleton_join (cleaned t) ?m Month_start))"
        and r: "r = run_rate_row (strftime_ym01 today) (day today)
                      (month_length (year today) (month today)) r1"
      by auto
    from trend_rows_otd[OF r1 c'] show ?thesis by (simp add: r run_rate_row_otd)
  qed
  have wk: "\<forall>r \<in> set (weekly t).
           (period_row.otd r = None \<or> period_row.otd r = Some 1)
           \<and> service_risk r \<noteq> ''AT RISK''
           \<and> (service_risk r = ''OK'' \<or> service_risk r = ''N/A'')
           \<and> ''HIGH REVENUE + POOR SERVICE'' \<notin> set (row_flags trailing total_revenue r)"
  proof
    fix r assume r: "r \<in> set (weekly t)"
    from w[OF r] have o: "period_row.otd r = None \<or> period_row.otd r = Some 1"
      and s: "service_risk r = service_risk_of (period_row.otd r)" by blast+
    from service_risk_ok[OF o] row_flags_no_poor[OF o, of trailing total_revenue] o s
    show "(period_row.otd r = None \<or> period_row.otd r = Some 1)
           \<and> service_risk r \<noteq> ''AT RISK''
           \<and> (service_risk r = ''OK'' \<or> service_risk r = ''N/A'')
           \<and> ''HIGH REVENUE + POOR SERVICE'' \<notin> set (row_flags trailing total_revenue r)"
      by simp
  qed
  have mo: "\<forall>r \<in> set (monthly t).
           (period_row.otd r = None \<or> period_row.otd r = Some 1)
           \<and> service_risk r \<noteq> ''AT RISK''
           \<and> (service_risk r = ''OK'' \<or> service_risk r = ''N/A'')"
  proof
    fix r assume r: "r \<in> set (monthly t)"
    from m[OF r] have o: "period_row.otd r = None \<or> period_row.otd r = Some 1"
      and s: "service_risk r = service_risk_of (period_row.otd r)" by blast+
    from service_risk_ok[OF o] o s
    show "(period_row.otd r = None \<or> period_row.otd r = Some 1)
           \<and> service_risk r \<noteq> ''AT RISK''
           \<and> (service_risk r = ''OK'' \<or> service_risk r = ''N/A'')"
      by simp
  qed
  have rk: "\<forall>x \<in> set (compute_risk_flags (weekly t) (cleaned t) selected_week).
           \<not> contains ''HIGH REVENUE + POOR SERVICE'' (risk_flag x)"
  proof
    fix x assume "x \<in> set (compute_risk_flags (weekly t) (cleaned t) selected_week)"
    from compute_risk_rows[OF this] obtain row tr tot where row: "row \<in> set (weekly t)"
      and x: "x = risk_of row (row_flags tr tot row)" by blast
    from w[OF row] have "period_row.otd row = None \<or> period_row.otd row = Some 1" by blast
    from row_flags_no_poor_text[OF this, of tr tot]
    show "\<not> contains ''HIGH REVENUE + POOR SERVICE'' (risk_flag x)"
      by (simp add: x risk_of_flag)
  qed
  from c wk mo rk show ?thesis by blast
qed

lemma pipeline_eval:
  "map_sum id (\<lambda>t. (length (cleaned t), map service_risk (weekly t)))
     (transform_loads march_10 [thursday_load, next_week_load, stranger_load] two_customers)
   = Inr (3, [''OK'', ''OK'', ''N/A'', ''N/A''])"
  by code_simp

theorem on_time_always_one_witness:
  "\<exists>t. transform_loads march_10 [thursday_load, next_week_load, stranger_load] two_customers
          = Inr t
       \<and> length (cleaned t) = 3
       \<and> map service_risk (weekly t) = [''OK'', ''OK'', ''N/A'', ''N/A'']
       \<and> list_all (\<lambda>l. on_time_pickup l = 1 \<and> on_time_delivery l = 1) (cleaned t)
       \<and> list_all (\<lambda>r. ''HIGH REVENUE + POOR SERVICE'' \<notin> set (row_flags [] 0 r)) (weekly t)"
proof -
  from pipeline_eval obtain t
    where t: "transform_loads march_10 [thursday_load, next_week_load, stranger_load]
                two_customers = Inr t"
      and e: "length (cleaned t) = 3" "map service_risk (weekly t) = [''OK'', ''OK'', ''N/A'', ''N/A'']"
    by (cases "transform_loads march_10 [thursday_load, next_week_load, stranger_load]
                 two_customers") auto
  note p = on_time_always_one [OF t, of "[]" 0 "''2024-03-18''"]
  from p have a: "list_all (\<lambda>l. on_time_pickup l = 1 \<and> on_time_delivery l = 1) (cleaned t)"
    unfolding list_all_iff by blast
  from p
  have b: "list_all (\<lambda>r. ''HIGH REVENUE + POOR SERVICE'' \<notin> set (row_flags [] 0 r)) (weekly t)"
    unfolding list_all_iff by blast
  show ?thesis
    by (rule exI[of _ t]) (intro conjI t e a b)
qed

section \<open>Risk Flag Engine\<close>











section \<open>Trend and Change Engine\<close>









end
